theory Spec2Isabelle
  imports Main "HOL-Library.Word"
begin

section \<open>The Qt objects the tunnel owns\<close>

text \<open>
  The development embeds \<^verbatim>\<open>remotedbusconnection.cpp\<close>: the class
  \<^verbatim>\<open>RemoteDBusConnectionTunnel\<close> (the object living in the networking thread) and the class
  \<^verbatim>\<open>RemoteDBusConnection\<close> (the object the application uses).

  Qt itself is not part of the repository. Every Qt object is a record of the part of its state
  the code reads, every Qt call updates that record and is appended to a log of library calls,
  and whatever Qt alone decides (whether a port can be bound, the state a dial leaves the socket
  in, whether a graceful disconnect finishes at once, the value \<^verbatim>\<open>write\<close> returns) is an
  argument of the function that makes the call. A signal raised by a Qt object is delivered by
  invoking the slot the constructor connected to it; each slot is a function of its own. The
  slots are connected directly (tunnel and sockets live in one thread), so a signal the socket
  raises inside a call the code makes runs its slot inside that call: that is the signal
  \<^verbatim>\<open>disconnected()\<close> inside \<^verbatim>\<open>disconnectFromHost()\<close> and \<^verbatim>\<open>abort()\<close>, unless the
  signals of the socket are blocked. A signal raised from the event loop is an event of its own.
\<close>

type_synonym byte = "8 word"
type_synonym quint16 = "16 word"

datatype SocketState =
    UnconnectedState | HostLookupState | ConnectingState | ConnectedState
  | BoundState | ListeningState | ClosingState

datatype NetworkLayerProtocol =
  IPv4Protocol | IPv6Protocol | AnyIPProtocol | UnknownNetworkLayerProtocol

datatype SocketOption =
    LowDelayOption | KeepAliveOption | MulticastTtlOption | MulticastLoopbackOption
  | TypeOfServiceOption | SendBufferSizeSocketOption | ReceiveBufferSizeSocketOption

datatype sockopt_level = SOL_TCP | SOL_SOCKET
datatype sockopt_name = TCP_KEEPCNT | TCP_KEEPIDLE | TCP_KEEPINTVL

text \<open>The two sockets a transfer can name.\<close>

datatype endpoint = Remote | Local

datatype lib_call =
    ServerListen
  | ServerResumeAccepting
  | ServerPauseAccepting
  | ServerClose
  | ServerNextPendingConnection
  | ConnectToHost string quint16 NetworkLayerProtocol
  | DisconnectFromHost
  | SocketAbort endpoint
  | SocketDeleteLater endpoint
  | SocketReadAll endpoint
  | SocketWrite endpoint "byte list"
  | SetSocketOption SocketOption int
  | Setsockopt sockopt_level sockopt_name int

text \<open>
  \<^verbatim>\<open>QTcpSocket\<close>: \<open>readable\<close> holds the bytes \<^verbatim>\<open>readAll()\<close> would return now,
  \<open>outgoing\<close> the bytes \<^verbatim>\<open>write()\<close> has accepted so far, in order.
\<close>

record QTcpSocket =
  sock_state :: SocketState
  readable :: "byte list"
  outgoing :: "byte list"
  signalsBlocked :: bool
  errorString :: string
  socketOptions :: "(SocketOption \<times> int) list"

record QTcpServer =
  isListening :: bool
  serverPort :: quint16
  accepting :: bool
  pendingConnections :: "QTcpSocket list"

record KeepaliveParams =
  active :: bool
  keepcnt :: int
  keepidle :: int
  keepintvl :: int

datatype channel_signal =
    ChannelOpened bool quint16
  | ChannelError string
  | ChannelClosed bool

text \<open>Calls posted to the event queue of the networking thread (queued invocations).\<close>

datatype queued_call =
    QueuedOpenChannel string quint16 NetworkLayerProtocol
  | QueuedCloseChannel
  | QueuedAbortChannel
  | QueuedStopWrappedOperationTimer

text \<open>
  The members of \<^verbatim>\<open>RemoteDBusConnectionTunnel\<close>. A \<^verbatim>\<open>QTimer\<close> is \<open>None\<close> when
  inactive and \<open>Some ms\<close> when started with interval \<open>ms\<close>; the \<^verbatim>\<open>QSemaphore\<close> is its
  number of available tokens; \<open>local_socket\<close> is \<open>None\<close> for \<^verbatim>\<open>nullptr\<close>.
  \<open>emitted\<close> lists the signals the tunnel has emitted, oldest first.
\<close>

record RemoteDBusConnectionTunnel =
  connection_timeout_ms :: int
  wrapped_operation_timeout_ms :: int
  wrapped_operation_semaphore :: nat
  wrapped_operation_timed_out :: bool
  remote_socket :: QTcpSocket
  local_socket :: "QTcpSocket option"
  local_server :: QTcpServer
  connection_timer :: "int option"
  wrapped_operation_timer :: "int option"
  keepalive_params :: KeepaliveParams
  emitted :: "channel_signal list"
  calls :: "lib_call list"
  queue :: "queued_call list"

text \<open>
  \<^verbatim>\<open>Q_ASSERT\<close> is taken as in a debug build: a failed assertion ends the program, which is
  the result \<open>Inl AssertionFailed\<close> of the slot; a call through a null socket pointer is
  \<open>Inl NullDereference\<close>.
\<close>

datatype fault = AssertionFailed | NullDereference

text \<open>
  A function that acquires the semaphore either returns, or leaves its thread parked inside
  \<^verbatim>\<open>QSemaphore::acquire\<close> with the object in the state it had reached.
\<close>

datatype ('w, 'r) blocking = Parked 'w | Returned 'r

definition fresh_socket :: QTcpSocket where
  "fresh_socket = \<lparr> sock_state = UnconnectedState, readable = [], outgoing = [],
     signalsBlocked = False, errorString = [], socketOptions = [] \<rparr>"

text \<open>The constructor: both timeouts disabled (-1), one token, no peer, nothing listening.\<close>

definition RemoteDBusConnectionTunnel_new :: RemoteDBusConnectionTunnel where
  "RemoteDBusConnectionTunnel_new = \<lparr>
     connection_timeout_ms = - 1,
     wrapped_operation_timeout_ms = - 1,
     wrapped_operation_semaphore = 1,
     wrapped_operation_timed_out = False,
     remote_socket = fresh_socket,
     local_socket = None,
     local_server = \<lparr> isListening = False, serverPort = 0, accepting = True,
       pendingConnections = [] \<rparr>,
     connection_timer = None,
     wrapped_operation_timer = None,
     keepalive_params = \<lparr> active = False, keepcnt = 0, keepidle = 0, keepintvl = 0 \<rparr>,
     emitted = [],
     calls = [],
     queue = [] \<rparr>"

subsection \<open>Library calls\<close>

definition emit :: "channel_signal \<Rightarrow> RemoteDBusConnectionTunnel \<Rightarrow> RemoteDBusConnectionTunnel" where
  "emit s t = t\<lparr>emitted := emitted t @ [s]\<rparr>"

definition called :: "lib_call \<Rightarrow> RemoteDBusConnectionTunnel \<Rightarrow> RemoteDBusConnectionTunnel" where
  "called c t = t\<lparr>calls := calls t @ [c]\<rparr>"

definition remote_state :: "RemoteDBusConnectionTunnel \<Rightarrow> SocketState" where
  "remote_state t = sock_state (remote_socket t)"

text \<open>
  \<^verbatim>\<open>QTcpServer::listen\<close>: refuses when already listening; otherwise \<open>bound\<close> is the port
  the system assigned, or \<open>None\<close> when the address cannot be bound.
\<close>

definition server_listen ::
  "quint16 option \<Rightarrow> RemoteDBusConnectionTunnel \<Rightarrow> bool \<times> RemoteDBusConnectionTunnel" where
  "server_listen bound t =
     (let t1 = called ServerListen t in
      if isListening (local_server t1) then (False, t1)
      else case bound of
             None \<Rightarrow> (False, t1)
           | Some p \<Rightarrow> (True, t1\<lparr>local_server := (local_server t1)\<lparr>isListening := True, serverPort := p\<rparr>\<rparr>))"

definition server_resumeAccepting :: "RemoteDBusConnectionTunnel \<Rightarrow> RemoteDBusConnectionTunnel" where
  "server_resumeAccepting t =
     called ServerResumeAccepting (t\<lparr>local_server := (local_server t)\<lparr>accepting := True\<rparr>\<rparr>)"

definition server_pauseAccepting :: "RemoteDBusConnectionTunnel \<Rightarrow> RemoteDBusConnectionTunnel" where
  "server_pauseAccepting t =
     called ServerPauseAccepting (t\<lparr>local_server := (local_server t)\<lparr>accepting := False\<rparr>\<rparr>)"

definition server_close :: "RemoteDBusConnectionTunnel \<Rightarrow> RemoteDBusConnectionTunnel" where
  "server_close t =
     called ServerClose
       (t\<lparr>local_server := (local_server t)\<lparr>isListening := False, serverPort := 0,
            pendingConnections := []\<rparr>\<rparr>)"

text \<open>
  \<^verbatim>\<open>QAbstractSocket::connectToHost\<close>: refused (state unchanged) while the socket is looking up,
  connecting, connected or closing; otherwise \<open>dial\<close> is the state the call leaves the
  socket in.
\<close>

definition remote_connectToHost ::
  "string \<Rightarrow> quint16 \<Rightarrow> NetworkLayerProtocol \<Rightarrow> SocketState \<Rightarrow>
   RemoteDBusConnectionTunnel \<Rightarrow> RemoteDBusConnectionTunnel" where
  "remote_connectToHost host port protocol dial t =
     (let t1 = called (ConnectToHost host port protocol) t in
      if remote_state t1 \<in> {HostLookupState, ConnectingState, ConnectedState, ClosingState}
      then t1
      else t1\<lparr>remote_socket := (remote_socket t1)\<lparr>sock_state := dial\<rparr>\<rparr>)"

fun set_option :: "SocketOption \<Rightarrow> int \<Rightarrow> (SocketOption \<times> int) list \<Rightarrow> (SocketOption \<times> int) list" where
  "set_option k v [] = [(k, v)]"
| "set_option k v ((k', v') # kvs) =
     (if k = k' then (k, v) # kvs else (k', v') # set_option k v kvs)"

subsection \<open>The slots of the tunnel\<close>

definition startConnectionTimer :: "RemoteDBusConnectionTunnel \<Rightarrow> RemoteDBusConnectionTunnel" where
  "startConnectionTimer t =
     (if connection_timeout_ms t \<noteq> - 1
      then t\<lparr>connection_timer := Some (connection_timeout_ms t)\<rparr>
      else t)"

definition startLocalServer ::
  "quint16 option \<Rightarrow> RemoteDBusConnectionTunnel \<Rightarrow> bool \<times> RemoteDBusConnectionTunnel" where
  "startLocalServer bound t =
     (let (result, t1) = server_listen bound t in
      if result then (result, server_resumeAccepting t1) else (result, t1))"

definition stopLocalServer :: "RemoteDBusConnectionTunnel \<Rightarrow> RemoteDBusConnectionTunnel" where
  "stopLocalServer t =
     (let t1 = (if isListening (local_server t) then server_close t else t) in
      case local_socket t1 of
        None \<Rightarrow> t1
      | Some s \<Rightarrow>
          (called (SocketDeleteLater Local) (called (SocketAbort Local) t1))\<lparr>local_socket := None\<rparr>)"

text \<open>
  The slot of the signal \<^verbatim>\<open>disconnected()\<close> of the remote socket stands here, before the
  socket calls that raise the signal.
\<close>

definition processRemoteSocketDisconnected ::
  "RemoteDBusConnectionTunnel \<Rightarrow> RemoteDBusConnectionTunnel" where
  "processRemoteSocketDisconnected t =
     emit (ChannelClosed True) (stopLocalServer (t\<lparr>connection_timer := None\<rparr>))"

text \<open>The remote socket raises \<^verbatim>\<open>disconnected()\<close>: the slot runs unless signals are blocked.\<close>

definition raise_disconnected :: "RemoteDBusConnectionTunnel \<Rightarrow> RemoteDBusConnectionTunnel" where
  "raise_disconnected t =
     (if signalsBlocked (remote_socket t) then t else processRemoteSocketDisconnected t)"

text \<open>
  \<^verbatim>\<open>QAbstractSocket::disconnectFromHost\<close>: nothing on an unconnected socket; otherwise the
  socket is closing, and when \<open>completes\<close> (nothing was waiting to be written) it is
  unconnected and has raised \<^verbatim>\<open>disconnected()\<close> before the call returns.
\<close>

definition remote_disconnectFromHost ::
  "bool \<Rightarrow> RemoteDBusConnectionTunnel \<Rightarrow> RemoteDBusConnectionTunnel" where
  "remote_disconnectFromHost completes t =
     (let t1 = called DisconnectFromHost t in
      if remote_state t1 = UnconnectedState then t1
      else if completes
      then raise_disconnected
             (t1\<lparr>remote_socket := (remote_socket t1)\<lparr>sock_state := UnconnectedState\<rparr>\<rparr>)
      else t1\<lparr>remote_socket := (remote_socket t1)\<lparr>sock_state := ClosingState\<rparr>\<rparr>)"

definition remote_blockSignals ::
  "bool \<Rightarrow> RemoteDBusConnectionTunnel \<Rightarrow> bool \<times> RemoteDBusConnectionTunnel" where
  "remote_blockSignals b t =
     (signalsBlocked (remote_socket t),
      t\<lparr>remote_socket := (remote_socket t)\<lparr>signalsBlocked := b\<rparr>\<rparr>)"

text \<open>
  \<^verbatim>\<open>QAbstractSocket::abort\<close>: closes at once and discards what was buffered; a socket that
  was connected or closing raises \<^verbatim>\<open>disconnected()\<close>.
\<close>

definition remote_abort :: "RemoteDBusConnectionTunnel \<Rightarrow> RemoteDBusConnectionTunnel" where
  "remote_abort t =
     (let t1 = called (SocketAbort Remote)
                 (t\<lparr>remote_socket := (remote_socket t)
                      \<lparr>sock_state := UnconnectedState, readable := []\<rparr>\<rparr>)
      in if remote_state t \<in> {ConnectedState, ClosingState} then raise_disconnected t1 else t1)"

definition disconnectRemoteSocket ::
  "bool \<Rightarrow> bool \<Rightarrow> RemoteDBusConnectionTunnel \<Rightarrow> RemoteDBusConnectionTunnel" where
  "disconnectRemoteSocket graceful completes t =
     (let t1 = t\<lparr>connection_timer := None\<rparr> in
      if graceful then
        (let t2 = remote_disconnectFromHost completes t1 in
         if remote_state t2 \<noteq> UnconnectedState then startConnectionTimer t2 else t2)
      else
        (let (last_b_s_state, t2) = remote_blockSignals True t1;
             t3 = remote_abort t2
         in snd (remote_blockSignals last_b_s_state t3)))"

definition openChannel ::
  "string \<Rightarrow> quint16 \<Rightarrow> NetworkLayerProtocol \<Rightarrow> quint16 option \<Rightarrow> SocketState \<Rightarrow>
   RemoteDBusConnectionTunnel \<Rightarrow> RemoteDBusConnectionTunnel" where
  "openChannel remote_hostname remote_port remote_protocol bound dial t =
     (let t1 = (if remote_state t \<noteq> UnconnectedState then emit (ChannelOpened False 0) t else t);
          (started, t2) = startLocalServer bound t1;
          t3 = (if \<not> started
                then emit (ChannelOpened False 0)
                       (emit (ChannelError ''Internal error: failed to start local server'') t2)
                else t2);
          t4 = remote_connectToHost remote_hostname remote_port remote_protocol dial t3
      in if remote_state t4 \<noteq> ConnectedState then startConnectionTimer t4 else t4)"

definition closeChannel :: "bool \<Rightarrow> RemoteDBusConnectionTunnel \<Rightarrow> RemoteDBusConnectionTunnel" where
  "closeChannel completes t =
     (case remote_state t of
        UnconnectedState \<Rightarrow> emit (ChannelClosed False) t
      | HostLookupState \<Rightarrow>
          emit (ChannelClosed True) (stopLocalServer (disconnectRemoteSocket False completes t))
      | ConnectingState \<Rightarrow>
          emit (ChannelClosed True) (stopLocalServer (disconnectRemoteSocket False completes t))
      | ConnectedState \<Rightarrow> disconnectRemoteSocket True completes t
      | ClosingState \<Rightarrow> t
      | BoundState \<Rightarrow> t
      | ListeningState \<Rightarrow> t)"

definition abortChannel :: "RemoteDBusConnectionTunnel \<Rightarrow> RemoteDBusConnectionTunnel" where
  "abortChannel t =
     (case remote_state t of
        UnconnectedState \<Rightarrow> t
      | ClosingState \<Rightarrow> t
      | HostLookupState \<Rightarrow> stopLocalServer (disconnectRemoteSocket False False t)
      | ConnectingState \<Rightarrow> stopLocalServer (disconnectRemoteSocket False False t)
      | ConnectedState \<Rightarrow> stopLocalServer (disconnectRemoteSocket False False t)
      | BoundState \<Rightarrow> t
      | ListeningState \<Rightarrow> t)"

definition setRemoteSocketOption ::
  "SocketOption \<Rightarrow> int \<Rightarrow> RemoteDBusConnectionTunnel \<Rightarrow> RemoteDBusConnectionTunnel" where
  "setRemoteSocketOption option v t =
     called (SetSocketOption option v)
       (t\<lparr>remote_socket := (remote_socket t)
            \<lparr>socketOptions := set_option option v (socketOptions (remote_socket t))\<rparr>\<rparr>)"

text \<open>
  What the system answers while the keepalive parameters are applied (Linux): the socket
  descriptor (-1 when there is none), whether each \<^verbatim>\<open>setsockopt\<close> returns 0, and the text built
  from \<^verbatim>\<open>errno\<close> when one does not.
\<close>

record keepalive_env =
  socketDescriptor :: int
  keepcnt_ok :: bool
  keepidle_ok :: bool
  keepintvl_ok :: bool
  errno_text :: string
  strerror_text :: string

definition applyRemoteSocketKeepaliveParams ::
  "keepalive_env \<Rightarrow> RemoteDBusConnectionTunnel \<Rightarrow> RemoteDBusConnectionTunnel" where
  "applyRemoteSocketKeepaliveParams e t =
     (if \<not> active (keepalive_params t) then t
      else if socketDescriptor e = - 1 then t
      else
        (let success = True;
             (success, t1) =
               (if success
                then (success \<and> keepcnt_ok e,
                      called (Setsockopt SOL_TCP TCP_KEEPCNT (keepcnt (keepalive_params t))) t)
                else (success, t));
             (success, t2) =
               (if success
                then (success \<and> keepidle_ok e,
                      called (Setsockopt SOL_SOCKET TCP_KEEPIDLE (keepidle (keepalive_params t1))) t1)
                else (success, t1));
             (success, t3) =
               (if success
                then (success \<and> keepintvl_ok e,
                      called (Setsockopt SOL_TCP TCP_KEEPINTVL (keepintvl (keepalive_params t2))) t2)
                else (success, t2))
         in if \<not> success
            then emit (ChannelError
                   (''Failed to set keepalive options for remote socket with error: '' @
                    errno_text e @ '' ('' @ strerror_text e @ '')'')) t3
            else t3))"

definition processRemoteSocketConnected ::
  "keepalive_env \<Rightarrow> RemoteDBusConnectionTunnel \<Rightarrow> fault + RemoteDBusConnectionTunnel" where
  "processRemoteSocketConnected e t =
     (let t1 = t\<lparr>connection_timer := None\<rparr>;
          t2 = applyRemoteSocketKeepaliveParams e t1
      in if \<not> isListening (local_server t2) then Inl AssertionFailed
         else Inr (emit (ChannelOpened True (serverPort (local_server t2))) t2))"

definition processConnectionFailure ::
  "bool \<Rightarrow> RemoteDBusConnectionTunnel \<Rightarrow> fault + RemoteDBusConnectionTunnel" where
  "processConnectionFailure socket_error t =
     (case remote_state t of
        HostLookupState \<Rightarrow>
          (let t1 = stopLocalServer (disconnectRemoteSocket False False t);
               t2 = (if \<not> socket_error
                     then emit (ChannelError ''Remote connect attempt timed out'') t1 else t1)
           in Inr (emit (ChannelOpened False 0) t2))
      | ConnectingState \<Rightarrow>
          (let t1 = stopLocalServer (disconnectRemoteSocket False False t);
               t2 = (if \<not> socket_error
                     then emit (ChannelError ''Remote connect attempt timed out'') t1 else t1)
           in Inr (emit (ChannelOpened False 0) t2))
      | ClosingState \<Rightarrow>
          (let t1 = stopLocalServer (disconnectRemoteSocket False False t);
               t2 = (if \<not> socket_error
                     then emit (ChannelError ''Remote disconnect attempt timed out, aborting'') t1
                     else t1)
           in Inr (emit (ChannelClosed True) t2))
      | UnconnectedState \<Rightarrow> Inl AssertionFailed
      | ConnectedState \<Rightarrow> Inl AssertionFailed
      | BoundState \<Rightarrow> Inl AssertionFailed
      | ListeningState \<Rightarrow> Inl AssertionFailed)"

definition processRemoteSocketError ::
  "RemoteDBusConnectionTunnel \<Rightarrow> fault + RemoteDBusConnectionTunnel" where
  "processRemoteSocketError t =
     processConnectionFailure True
       (emit (ChannelError (''Remote connection error: '' @ errorString (remote_socket t))) t)"

definition processConnectionTimeout ::
  "RemoteDBusConnectionTunnel \<Rightarrow> fault + RemoteDBusConnectionTunnel" where
  "processConnectionTimeout t = processConnectionFailure False t"

text \<open>
  \<^verbatim>\<open>nextPendingConnection\<close> hands over the oldest pending connection, or \<^verbatim>\<open>nullptr\<close>.
\<close>

definition processLocalServerNewConnection ::
  "RemoteDBusConnectionTunnel \<Rightarrow> fault + RemoteDBusConnectionTunnel" where
  "processLocalServerNewConnection t =
     (let t1 = server_pauseAccepting t in
      if local_socket t1 \<noteq> None then Inl AssertionFailed
      else
        (let t2 = called ServerNextPendingConnection t1 in
         case pendingConnections (local_server t2) of
           [] \<Rightarrow> Inr (t2\<lparr>local_socket := None\<rparr>)
         | s # rest \<Rightarrow>
             Inr (t2\<lparr>local_socket := Some s,
                    local_server := (local_server t2)\<lparr>pendingConnections := rest\<rparr>\<rparr>)))"

definition socket_of :: "endpoint \<Rightarrow> RemoteDBusConnectionTunnel \<Rightarrow> QTcpSocket option" where
  "socket_of e t = (case e of Remote \<Rightarrow> Some (remote_socket t) | Local \<Rightarrow> local_socket t)"

definition put_socket ::
  "endpoint \<Rightarrow> QTcpSocket \<Rightarrow> RemoteDBusConnectionTunnel \<Rightarrow> RemoteDBusConnectionTunnel" where
  "put_socket e s t =
     (case e of Remote \<Rightarrow> t\<lparr>remote_socket := s\<rparr> | Local \<Rightarrow> t\<lparr>local_socket := Some s\<rparr>)"

text \<open>
  \<open>written\<close> is the value \<^verbatim>\<open>dest_socket->write(data)\<close> returns: the number of bytes the socket
  took (from the front of \<open>data\<close>), or a negative number on error.
\<close>

definition transferDataFromSocketToSocket ::
  "int \<Rightarrow> endpoint \<Rightarrow> endpoint \<Rightarrow> RemoteDBusConnectionTunnel \<Rightarrow>
   fault + RemoteDBusConnectionTunnel" where
  "transferDataFromSocketToSocket written src_socket dest_socket t =
     (case socket_of src_socket t of
        None \<Rightarrow> Inl NullDereference
      | Some s \<Rightarrow>
          (let data = readable s;
               t1 = called (SocketReadAll src_socket) (put_socket src_socket (s\<lparr>readable := []\<rparr>) t)
           in if data = [] then Inr t1
              else case socket_of dest_socket t1 of
                     None \<Rightarrow> Inl NullDereference
                   | Some d \<Rightarrow>
                       (let t2 = called (SocketWrite dest_socket data)
                                   (put_socket dest_socket
                                      (d\<lparr>outgoing := outgoing d @ take (nat written) data\<rparr>) t1)
                        in if written < 0 \<or> written = int (length data) then Inr t2
                           else Inl AssertionFailed)))"

definition processRemoteSocketReadyRead ::
  "int \<Rightarrow> RemoteDBusConnectionTunnel \<Rightarrow> fault + RemoteDBusConnectionTunnel" where
  "processRemoteSocketReadyRead written t =
     (if local_socket t = None then Inr t
      else transferDataFromSocketToSocket written Remote Local t)"

definition processLocalSocketReadyRead ::
  "int \<Rightarrow> RemoteDBusConnectionTunnel \<Rightarrow> fault + RemoteDBusConnectionTunnel" where
  "processLocalSocketReadyRead written t =
     (if local_socket t = None then Inr t
      else transferDataFromSocketToSocket written Local Remote t)"

subsection \<open>The guard around a wrapped operation\<close>

definition semaphore_acquire ::
  "RemoteDBusConnectionTunnel \<Rightarrow> (RemoteDBusConnectionTunnel, RemoteDBusConnectionTunnel) blocking" where
  "semaphore_acquire t =
     (if wrapped_operation_semaphore t = 0 then Parked t
      else Returned (t\<lparr>wrapped_operation_semaphore := wrapped_operation_semaphore t - 1\<rparr>))"

definition semaphore_release :: "RemoteDBusConnectionTunnel \<Rightarrow> RemoteDBusConnectionTunnel" where
  "semaphore_release t = t\<lparr>wrapped_operation_semaphore := wrapped_operation_semaphore t + 1\<rparr>"

text \<open>
  Each function that acquires is written in two parts: what it does before the call of
  \<^verbatim>\<open>acquire\<close>, and the function \<open>_acquire\<close> for the call and what follows it. A parked thread
  that is woken continues with \<open>_acquire\<close> on the state the object has by then.
\<close>

definition syncStartWrappedOperation_acquire ::
  "RemoteDBusConnectionTunnel \<Rightarrow> (RemoteDBusConnectionTunnel, RemoteDBusConnectionTunnel) blocking" where
  "syncStartWrappedOperation_acquire t =
     (case semaphore_acquire t of
        Parked w \<Rightarrow> Parked w
      | Returned t1 \<Rightarrow>
          Returned (if wrapped_operation_timeout_ms t1 \<noteq> - 1
                    then t1\<lparr>wrapped_operation_timer := Some (wrapped_operation_timeout_ms t1)\<rparr>
                    else t1))"

definition syncStartWrappedOperation ::
  "RemoteDBusConnectionTunnel \<Rightarrow> (RemoteDBusConnectionTunnel, RemoteDBusConnectionTunnel) blocking" where
  "syncStartWrappedOperation t =
     syncStartWrappedOperation_acquire (t\<lparr>wrapped_operation_timed_out := False\<rparr>)"

definition asyncStopWrappedOperation :: "RemoteDBusConnectionTunnel \<Rightarrow> RemoteDBusConnectionTunnel" where
  "asyncStopWrappedOperation t =
     semaphore_release
       (if wrapped_operation_timeout_ms t \<noteq> - 1
        then t\<lparr>queue := queue t @ [QueuedStopWrappedOperationTimer]\<rparr>
        else t)"

definition isWrappedOperationTimedOut :: "RemoteDBusConnectionTunnel \<Rightarrow> bool" where
  "isWrappedOperationTimedOut t = wrapped_operation_timed_out t"

definition processWrappedOperationTimeout_acquire ::
  "RemoteDBusConnectionTunnel \<Rightarrow> (RemoteDBusConnectionTunnel, RemoteDBusConnectionTunnel) blocking" where
  "processWrappedOperationTimeout_acquire t =
     (case semaphore_acquire t of
        Parked w \<Rightarrow> Parked w
      | Returned t1 \<Rightarrow> Returned (emit (ChannelClosed True) (semaphore_release t1)))"

definition processWrappedOperationTimeout ::
  "RemoteDBusConnectionTunnel \<Rightarrow> (RemoteDBusConnectionTunnel, RemoteDBusConnectionTunnel) blocking" where
  "processWrappedOperationTimeout t =
     (let t1 = t\<lparr>wrapped_operation_timed_out := True\<rparr> in
      if remote_state t1 \<noteq> ConnectedState then Returned t1
      else processWrappedOperationTimeout_acquire (abortChannel t1))"

section \<open>The connection object\<close>

record QDBusError =
  error_isValid :: bool
  error_name :: string
  error_message :: string

text \<open>The part of a \<^verbatim>\<open>QDBusConnection\<close> the code reads.\<close>

record QDBusConnection =
  isConnected :: bool
  lastError :: QDBusError

datatype connection_signal =
    ConnectionOpened bool
  | ConnectionError string
  | ConnectionClosed

datatype bus_call =
    ConnectToBus string string
  | DisconnectFromBus string

text \<open>
  The members of \<^verbatim>\<open>RemoteDBusConnection\<close>; \<open>ref\<close> is \<open>None\<close> for \<^verbatim>\<open>nullptr\<close>.
  \<open>delivered\<close> lists the signals emitted to the application, oldest first, each with the value
  \<^verbatim>\<open>isConnectionOpened()\<close> has at the moment of the emission (what a slot of the application
  sees when it is called). \<open>posted\<close> holds the \<^verbatim>\<open>connectionError\<close> emissions queued on the
  object's own event loop.
\<close>

record RemoteDBusConnection =
  ref :: "QDBusConnection option"
  ref_name :: string
  tunnel :: RemoteDBusConnectionTunnel
  delivered :: "(connection_signal \<times> bool) list"
  posted :: "string list"
  bus_calls :: "bus_call list"

definition RemoteDBusConnection_new :: "string \<Rightarrow> RemoteDBusConnection" where
  "RemoteDBusConnection_new name = \<lparr> ref = None, ref_name = name,
     tunnel = RemoteDBusConnectionTunnel_new, delivered = [], posted = [], bus_calls = [] \<rparr>"

definition isConnectionOpened :: "RemoteDBusConnection \<Rightarrow> bool" where
  "isConnectionOpened f = (ref f \<noteq> None)"

definition emit_connection :: "connection_signal \<Rightarrow> RemoteDBusConnection \<Rightarrow> RemoteDBusConnection" where
  "emit_connection s f = f\<lparr>delivered := delivered f @ [(s, isConnectionOpened f)]\<rparr>"

definition invoke_queued :: "queued_call \<Rightarrow> RemoteDBusConnection \<Rightarrow> RemoteDBusConnection" where
  "invoke_queued c f = f\<lparr>tunnel := (tunnel f)\<lparr>queue := queue (tunnel f) @ [c]\<rparr>\<rparr>"

text \<open>Decimal rendering of a number, as \<^verbatim>\<open>QString::arg\<close> does for an integer.\<close>

fun decimal :: "nat \<Rightarrow> string" where
  "decimal n =
     (if n < 10 then [''0123456789'' ! n]
      else decimal (n div 10) @ [''0123456789'' ! (n mod 10)])"

declare decimal.simps [simp del]

definition setConnectionTimeout :: "int \<Rightarrow> RemoteDBusConnection \<Rightarrow> RemoteDBusConnection" where
  "setConnectionTimeout timeout_ms f = f\<lparr>tunnel := (tunnel f)\<lparr>connection_timeout_ms := timeout_ms\<rparr>\<rparr>"

definition setWrappedOperationTimeout :: "int \<Rightarrow> RemoteDBusConnection \<Rightarrow> RemoteDBusConnection" where
  "setWrappedOperationTimeout timeout_ms f =
     f\<lparr>tunnel := (tunnel f)\<lparr>wrapped_operation_timeout_ms := timeout_ms\<rparr>\<rparr>"

definition dropNativeDBusConnection :: "RemoteDBusConnection \<Rightarrow> RemoteDBusConnection" where
  "dropNativeDBusConnection f =
     (case ref f of
        None \<Rightarrow> f
      | Some c \<Rightarrow> f\<lparr>bus_calls := bus_calls f @ [DisconnectFromBus (ref_name f)], ref := None\<rparr>)"

definition formatDBusErrorDetails :: "QDBusError \<Rightarrow> string" where
  "formatDBusErrorDetails e =
     (if error_isValid e
      then ''error:'' @ [CHR 0x0A] @ ''Name: '' @ error_name e @ [CHR 0x0A] @ ''Message: '' @
           error_message e
      else ''no error'')"

definition openConnection ::
  "string \<Rightarrow> quint16 \<Rightarrow> NetworkLayerProtocol \<Rightarrow> RemoteDBusConnection \<Rightarrow>
   bool \<times> RemoteDBusConnection" where
  "openConnection hostname port protocol f =
     (if isConnectionOpened f then (False, f)
      else (True, invoke_queued (QueuedOpenChannel hostname port protocol) f))"

definition closeConnection :: "RemoteDBusConnection \<Rightarrow> bool \<times> RemoteDBusConnection" where
  "closeConnection f =
     (if \<not> isConnectionOpened f then (False, f)
      else (True, invoke_queued QueuedCloseChannel (dropNativeDBusConnection f)))"

text \<open>
  \<open>bus\<close> is the connection \<^verbatim>\<open>QDBusConnection::connectToBus\<close> returns for the address of the
  local listener.
\<close>

definition processTunnelChannelOpened ::
  "bool \<Rightarrow> quint16 \<Rightarrow> QDBusConnection \<Rightarrow> RemoteDBusConnection \<Rightarrow> RemoteDBusConnection" where
  "processTunnelChannelOpened success local_port bus f =
     (if success then
        (let dbus_address = ''tcp:host=localhost,port='' @ decimal (unat local_port);
             f1 = f\<lparr>bus_calls := bus_calls f @ [ConnectToBus dbus_address (ref_name f)],
                    ref := Some bus\<rparr>
         in if isConnected bus then emit_connection (ConnectionOpened True) f1
            else
              (let dbus_error = lastError bus;
                   f2 = dropNativeDBusConnection f1;
                   f3 = invoke_queued QueuedAbortChannel f2;
                   f4 = emit_connection
                          (ConnectionError
                             (''D-Bus connection failed with '' @ formatDBusErrorDetails dbus_error)) f3
               in emit_connection (ConnectionOpened False) f4))
      else emit_connection (ConnectionOpened False) f)"

definition processTunnelChannelClosed :: "bool \<Rightarrow> RemoteDBusConnection \<Rightarrow> RemoteDBusConnection" where
  "processTunnelChannelClosed success f =
     (if \<not> success then f
      else emit_connection ConnectionClosed (dropNativeDBusConnection f))"

text \<open>
  The constructor connects the three signals of the tunnel: \<^verbatim>\<open>channelOpened\<close> and
  \<^verbatim>\<open>channelClosed\<close> to the two slots above, \<^verbatim>\<open>channelError\<close> to the signal
  \<^verbatim>\<open>connectionError\<close>.
\<close>

definition deliver ::
  "channel_signal \<Rightarrow> QDBusConnection \<Rightarrow> RemoteDBusConnection \<Rightarrow> RemoteDBusConnection" where
  "deliver s bus f =
     (case s of
        ChannelOpened success local_port \<Rightarrow> processTunnelChannelOpened success local_port bus f
      | ChannelClosed success \<Rightarrow> processTunnelChannelClosed success f
      | ChannelError message \<Rightarrow> emit_connection (ConnectionError message) f)"




section \<open>Events of the networking thread\<close>

text \<open>
  The constructor of the tunnel connects the signals of the remote socket, of the local server
  and of the two timers to the slots; the connection object invokes the other slots, queued or
  blocking. An event is one such invocation, together with what Qt did just before raising the
  signal (the new socket state, the bytes that arrived, the peer that connected, the single-shot
  timer that went inactive) and with what Qt answers during the slot. A timer that is not active
  does not fire, and a blocked socket signal is not delivered. The last two events are the
  connection object storing a new timeout (\<^verbatim>\<open>setConnectionTimeout\<close>,
  \<^verbatim>\<open>setWrappedOperationTimeout\<close>), which the application may do at any time.
\<close>

datatype event =
    Posted queued_call
  | QueuedCallRuns "quint16 option" SocketState bool
  | InvokeSetRemoteSocketOption SocketOption int
  | InvokeApplyRemoteSocketKeepaliveParams keepalive_env
  | InvokeSyncStartWrappedOperation
  | WokenSyncStartWrappedOperation
  | InvokeAsyncStopWrappedOperation
  | RemoteSocketConnected keepalive_env
  | RemoteSocketDisconnected
  | RemoteSocketError SocketState string
  | RemoteSocketReadyRead "byte list" int
  | LocalSocketReadyRead "byte list" int
  | LocalServerNewConnection
  | ConnectionTimerTimeout
  | WrappedOperationTimerTimeout
  | WokenWrappedOperationTimeout
  | SetConnectionTimeout int
  | SetWrappedOperationTimeout int

definition state_of :: "('a, 'a) blocking \<Rightarrow> 'a" where
  "state_of b = (case b of Parked w \<Rightarrow> w | Returned r \<Rightarrow> r)"

definition run_queued ::
  "quint16 option \<Rightarrow> SocketState \<Rightarrow> bool \<Rightarrow> RemoteDBusConnectionTunnel \<Rightarrow>
   RemoteDBusConnectionTunnel" where
  "run_queued bound dial completes t =
     (case queue t of
        [] \<Rightarrow> t
      | c # cs \<Rightarrow>
          (let t1 = t\<lparr>queue := cs\<rparr> in
           case c of
             QueuedOpenChannel h p pr \<Rightarrow> openChannel h p pr bound dial t1
           | QueuedCloseChannel \<Rightarrow> closeChannel completes t1
           | QueuedAbortChannel \<Rightarrow> abortChannel t1
           | QueuedStopWrappedOperationTimer \<Rightarrow> t1\<lparr>wrapped_operation_timer := None\<rparr>))"

definition set_remote ::
  "SocketState \<Rightarrow> RemoteDBusConnectionTunnel \<Rightarrow> RemoteDBusConnectionTunnel" where
  "set_remote s t = t\<lparr>remote_socket := (remote_socket t)\<lparr>sock_state := s\<rparr>\<rparr>"

definition arrive ::
  "endpoint \<Rightarrow> byte list \<Rightarrow> RemoteDBusConnectionTunnel \<Rightarrow> RemoteDBusConnectionTunnel" where
  "arrive e bs t =
     (case socket_of e t of
        None \<Rightarrow> t
      | Some s \<Rightarrow> put_socket e (s\<lparr>readable := readable s @ bs\<rparr>) t)"

definition handle ::
  "event \<Rightarrow> RemoteDBusConnectionTunnel \<Rightarrow> fault + RemoteDBusConnectionTunnel" where
  "handle ev t =
     (case ev of
        Posted c \<Rightarrow> Inr (t\<lparr>queue := queue t @ [c]\<rparr>)
      | QueuedCallRuns bound dial completes \<Rightarrow> Inr (run_queued bound dial completes t)
      | InvokeSetRemoteSocketOption option v \<Rightarrow> Inr (setRemoteSocketOption option v t)
      | InvokeApplyRemoteSocketKeepaliveParams e \<Rightarrow> Inr (applyRemoteSocketKeepaliveParams e t)
      | InvokeSyncStartWrappedOperation \<Rightarrow> Inr (state_of (syncStartWrappedOperation t))
      | WokenSyncStartWrappedOperation \<Rightarrow> Inr (state_of (syncStartWrappedOperation_acquire t))
      | InvokeAsyncStopWrappedOperation \<Rightarrow> Inr (asyncStopWrappedOperation t)
      | RemoteSocketConnected e \<Rightarrow> processRemoteSocketConnected e (set_remote ConnectedState t)
      | RemoteSocketDisconnected \<Rightarrow>
          (if signalsBlocked (remote_socket t) then Inr (set_remote UnconnectedState t)
           else Inr (processRemoteSocketDisconnected (set_remote UnconnectedState t)))
      | RemoteSocketError s msg \<Rightarrow>
          processRemoteSocketError
            (t\<lparr>remote_socket := (remote_socket t)\<lparr>sock_state := s, errorString := msg\<rparr>\<rparr>)
      | RemoteSocketReadyRead bs written \<Rightarrow> processRemoteSocketReadyRead written (arrive Remote bs t)
      | LocalSocketReadyRead bs written \<Rightarrow> processLocalSocketReadyRead written (arrive Local bs t)
      | LocalServerNewConnection \<Rightarrow>
          processLocalServerNewConnection
            (t\<lparr>local_server := (local_server t)
                 \<lparr>pendingConnections := pendingConnections (local_server t) @ [fresh_socket\<lparr>sock_state := ConnectedState\<rparr>]\<rparr>\<rparr>)
      | ConnectionTimerTimeout \<Rightarrow>
          (if connection_timer t = None then Inr t
           else processConnectionTimeout (t\<lparr>connection_timer := None\<rparr>))
      | WrappedOperationTimerTimeout \<Rightarrow>
          (if wrapped_operation_timer t = None then Inr t
           else Inr (state_of (processWrappedOperationTimeout (t\<lparr>wrapped_operation_timer := None\<rparr>))))
      | WokenWrappedOperationTimeout \<Rightarrow> Inr (state_of (processWrappedOperationTimeout_acquire t))
      | SetConnectionTimeout timeout_ms \<Rightarrow> Inr (t\<lparr>connection_timeout_ms := timeout_ms\<rparr>)
      | SetWrappedOperationTimeout timeout_ms \<Rightarrow>
          Inr (t\<lparr>wrapped_operation_timeout_ms := timeout_ms\<rparr>))"

fun run :: "event list \<Rightarrow> RemoteDBusConnectionTunnel \<Rightarrow> fault + RemoteDBusConnectionTunnel" where
  "run [] t = Inr t"
| "run (ev # evs) t = (case handle ev t of Inl e \<Rightarrow> Inl e | Inr t' \<Rightarrow> run evs t')"

section \<open>Views of the state and sample states\<close>

text \<open>The members the operation guard works with.\<close>

definition guard_of ::
  "RemoteDBusConnectionTunnel \<Rightarrow> int \<times> int \<times> nat \<times> bool \<times> int option" where
  "guard_of t = (connection_timeout_ms t, wrapped_operation_timeout_ms t,
     wrapped_operation_semaphore t, wrapped_operation_timed_out t, wrapped_operation_timer t)"

text \<open>A timer is active only if its timeout is not the disabled value -1.\<close>

definition ctimer_ok :: "RemoteDBusConnectionTunnel \<Rightarrow> bool" where
  "ctimer_ok t \<longleftrightarrow> (connection_timeout_ms t = - 1 \<longrightarrow> connection_timer t = None)"

definition wtimer_ok :: "RemoteDBusConnectionTunnel \<Rightarrow> bool" where
  "wtimer_ok t \<longleftrightarrow> (wrapped_operation_timeout_ms t = - 1 \<longrightarrow> wrapped_operation_timer t = None)"

text \<open>Whether the signals of the remote socket are blocked.\<close>

definition remote_blocked :: "RemoteDBusConnectionTunnel \<Rightarrow> bool" where
  "remote_blocked t = signalsBlocked (remote_socket t)"

definition is_closed :: "connection_signal \<times> bool \<Rightarrow> bool" where
  "is_closed d = (fst d = ConnectionClosed)"

text \<open>
  Sample states, each reached from the constructor by events: the timeouts of the example in the
  header (500 ms and 100 ms), a dial in progress, an open channel with its peer attached, a
  graceful disconnect in progress, and a wrapped operation in flight.
\<close>

definition sample_env :: keepalive_env where
  "sample_env = \<lparr> socketDescriptor = 7, keepcnt_ok = True, keepidle_ok = True,
     keepintvl_ok = True, errno_text = [], strerror_text = [] \<rparr>"

definition configured_tunnel :: RemoteDBusConnectionTunnel where
  "configured_tunnel =
     RemoteDBusConnectionTunnel_new\<lparr>connection_timeout_ms := 500,
       wrapped_operation_timeout_ms := 100\<rparr>"

definition connecting_tunnel :: RemoteDBusConnectionTunnel where
  "connecting_tunnel =
     projr (run [Posted (QueuedOpenChannel ''remote.host'' 12345 AnyIPProtocol),
                 QueuedCallRuns (Some 40000) ConnectingState False] configured_tunnel)"

definition connected_tunnel :: RemoteDBusConnectionTunnel where
  "connected_tunnel =
     projr (run [RemoteSocketConnected sample_env, LocalServerNewConnection] connecting_tunnel)"

definition closing_tunnel :: RemoteDBusConnectionTunnel where
  "closing_tunnel =
     projr (run [Posted QueuedCloseChannel, QueuedCallRuns None ConnectingState False]
              connected_tunnel)"

definition in_flight_tunnel :: RemoteDBusConnectionTunnel where
  "in_flight_tunnel = projr (run [InvokeSyncStartWrappedOperation] connected_tunnel)"






definition connected_bus :: QDBusConnection where
  "connected_bus = \<lparr> isConnected = True,
     lastError = \<lparr> error_isValid = False, error_name = [], error_message = [] \<rparr> \<rparr>"

definition failed_bus :: QDBusConnection where
  "failed_bus = \<lparr> isConnected = False,
     lastError = \<lparr> error_isValid = True,
       error_name = ''org.freedesktop.DBus.Error.NoServer'',
       error_message = ''Connection refused'' \<rparr> \<rparr>"

text \<open>
  The connection object after \<^verbatim>\<open>openConnection\<close>, the events that open the channel and the
  delivery of \<^verbatim>\<open>channelOpened(true, 40000)\<close>.
\<close>

definition opened_connection :: RemoteDBusConnection where
  "opened_connection =
     processTunnelChannelOpened True 40000 connected_bus
       ((RemoteDBusConnection_new ''myconnection'')\<lparr>tunnel := connected_tunnel\<rparr>)"


text \<open>
  Events of the networking thread seen from the connection object, and the connection object
  when \<^verbatim>\<open>openConnection\<close> is called a second time before the signal
  \<^verbatim>\<open>channelOpened(true, 40000)\<close> of the first has been delivered.
\<close>

definition on_tunnel :: "event list \<Rightarrow> RemoteDBusConnection \<Rightarrow> RemoteDBusConnection" where
  "on_tunnel evs f = f\<lparr>tunnel := projr (run evs (tunnel f))\<rparr>"

definition racing_connection :: RemoteDBusConnection where
  "racing_connection =
     deliver (ChannelOpened False 0) connected_bus
       (on_tunnel [QueuedCallRuns (Some 40001) ConnectingState False]
          (deliver (ChannelOpened True 40000) connected_bus
             (snd (openConnection ''remote.host'' 12345 AnyIPProtocol
                (on_tunnel [QueuedCallRuns (Some 40000) ConnectingState False,
                            RemoteSocketConnected sample_env]
                   (snd (openConnection ''remote.host'' 12345 AnyIPProtocol
                      ((RemoteDBusConnection_new ''myconnection'')
                         \<lparr>tunnel := configured_tunnel\<rparr>))))))))"

text \<open>
  A chunk of bytes that becomes readable on one of the two sockets and is written whole to the
  other: the readiness event of that socket, with \<^verbatim>\<open>write\<close> returning the chunk's size.
\<close>

definition relay_event :: "endpoint \<times> byte list \<Rightarrow> event" where
  "relay_event x =
     (case fst x of
        Local \<Rightarrow> LocalSocketReadyRead (snd x) (int (length (snd x)))
      | Remote \<Rightarrow> RemoteSocketReadyRead (snd x) (int (length (snd x))))"

definition chunks_from :: "endpoint \<Rightarrow> (endpoint \<times> byte list) list \<Rightarrow> byte list" where
  "chunks_from e xs = concat (map snd (filter (\<lambda>x. fst x = e) xs))"

section \<open>Auxiliary facts\<close>

lemmas prim_defs = emit_def called_def server_listen_def server_resumeAccepting_def
  server_pauseAccepting_def server_close_def remote_connectToHost_def remote_disconnectFromHost_def
  remote_blockSignals_def remote_abort_def raise_disconnected_def

lemmas slot_defs = startConnectionTimer_def startLocalServer_def stopLocalServer_def
  disconnectRemoteSocket_def openChannel_def closeChannel_def abortChannel_def
  setRemoteSocketOption_def applyRemoteSocketKeepaliveParams_def processRemoteSocketConnected_def
  processRemoteSocketDisconnected_def processConnectionFailure_def processRemoteSocketError_def
  processConnectionTimeout_def processLocalServerNewConnection_def
  transferDataFromSocketToSocket_def processRemoteSocketReadyRead_def
  processLocalSocketReadyRead_def syncStartWrappedOperation_acquire_def
  syncStartWrappedOperation_def asyncStopWrappedOperation_def isWrappedOperationTimedOut_def
  processWrappedOperationTimeout_acquire_def processWrappedOperationTimeout_def run_queued_def
  socket_of_def put_socket_def semaphore_acquire_def semaphore_release_def set_remote_def
  arrive_def state_of_def handle_def remote_state_def

subsection \<open>The sample states, evaluated\<close>

lemma connecting_tunnel_eq:
  "connecting_tunnel =
     \<lparr>connection_timeout_ms = 500, wrapped_operation_timeout_ms = 100,
      wrapped_operation_semaphore = 1, wrapped_operation_timed_out = False,
      remote_socket = fresh_socket\<lparr>sock_state := ConnectingState\<rparr>,
      local_socket = None,
      local_server = \<lparr>isListening = True, serverPort = 40000, accepting = True,
        pendingConnections = []\<rparr>,
      connection_timer = Some 500, wrapped_operation_timer = None,
      keepalive_params = \<lparr>active = False, keepcnt = 0, keepidle = 0, keepintvl = 0\<rparr>,
      emitted = [],
      calls = [ServerListen, ServerResumeAccepting,
        ConnectToHost ''remote.host'' 12345 AnyIPProtocol],
      queue = []\<rparr>"
  by (simp add: connecting_tunnel_def configured_tunnel_def RemoteDBusConnectionTunnel_new_def
        fresh_socket_def prim_defs slot_defs Let_def)

lemma connected_tunnel_eq:
  "connected_tunnel =
     \<lparr>connection_timeout_ms = 500, wrapped_operation_timeout_ms = 100,
      wrapped_operation_semaphore = 1, wrapped_operation_timed_out = False,
      remote_socket = fresh_socket\<lparr>sock_state := ConnectedState\<rparr>,
      local_socket = Some (fresh_socket\<lparr>sock_state := ConnectedState\<rparr>),
      local_server = \<lparr>isListening = True, serverPort = 40000, accepting = False,
        pendingConnections = []\<rparr>,
      connection_timer = None, wrapped_operation_timer = None,
      keepalive_params = \<lparr>active = False, keepcnt = 0, keepidle = 0, keepintvl = 0\<rparr>,
      emitted = [ChannelOpened True 40000],
      calls = [ServerListen, ServerResumeAccepting,
        ConnectToHost ''remote.host'' 12345 AnyIPProtocol,
        ServerPauseAccepting, ServerNextPendingConnection],
      queue = []\<rparr>"
  by (simp add: connected_tunnel_def connecting_tunnel_eq sample_env_def
        fresh_socket_def prim_defs slot_defs Let_def)

lemma closing_tunnel_eq:
  "closing_tunnel =
     connected_tunnel\<lparr>remote_socket := fresh_socket\<lparr>sock_state := ClosingState\<rparr>,
       connection_timer := Some 500,
       calls := calls connected_tunnel @ [DisconnectFromHost]\<rparr>"
  by (simp add: closing_tunnel_def connected_tunnel_eq
        fresh_socket_def prim_defs slot_defs Let_def)

lemma in_flight_tunnel_eq:
  "in_flight_tunnel =
     connected_tunnel\<lparr>wrapped_operation_semaphore := 0, wrapped_operation_timer := Some 100\<rparr>"
  by (simp add: in_flight_tunnel_def connected_tunnel_eq
        fresh_socket_def prim_defs slot_defs Let_def)



subsection \<open>Slots of the state machine leave the guard alone\<close>

lemma prim_guard [simp]:
  "guard_of (emit s t) = guard_of t"
  "guard_of (called k t) = guard_of t"
  "guard_of (snd (server_listen b t)) = guard_of t"
  "guard_of (server_resumeAccepting t) = guard_of t"
  "guard_of (server_pauseAccepting t) = guard_of t"
  "guard_of (server_close t) = guard_of t"
  "guard_of (remote_connectToHost h p pr d t) = guard_of t"
  "guard_of (snd (remote_blockSignals bl t)) = guard_of t"
  by (simp_all add: guard_of_def prim_defs Let_def remote_state_def split: option.splits)

lemma prim_ctimer [simp]:
  "connection_timer (emit s t) = connection_timer t"
  "connection_timer (called k t) = connection_timer t"
  "connection_timer (snd (server_listen b t)) = connection_timer t"
  "connection_timer (server_resumeAccepting t) = connection_timer t"
  "connection_timer (server_pauseAccepting t) = connection_timer t"
  "connection_timer (server_close t) = connection_timer t"
  "connection_timer (remote_connectToHost h p pr d t) = connection_timer t"
  "connection_timer (snd (remote_blockSignals bl t)) = connection_timer t"
  by (simp_all add: prim_defs Let_def remote_state_def split: option.splits)

lemma guard_of_updates [simp]:
  "guard_of (t\<lparr>connection_timer := x\<rparr>) = guard_of t"
  "guard_of (t\<lparr>local_socket := ls\<rparr>) = guard_of t"
  "guard_of (t\<lparr>local_server := sv\<rparr>) = guard_of t"
  "guard_of (t\<lparr>remote_socket := rs\<rparr>) = guard_of t"
  "guard_of (t\<lparr>queue := q\<rparr>) = guard_of t"
  by (simp_all add: guard_of_def)

lemma ctimer_ok_eq:
  "guard_of t' = guard_of t \<Longrightarrow> connection_timer t' = connection_timer t \<Longrightarrow>
   ctimer_ok t' = ctimer_ok t"
  by (auto simp: ctimer_ok_def guard_of_def)

lemma ctimer_ok_simps [simp]:
  "ctimer_ok (t\<lparr>connection_timer := None\<rparr>)"
  "ctimer_ok (emit s t) = ctimer_ok t"
  "ctimer_ok (called k t) = ctimer_ok t"
  "ctimer_ok (snd (server_listen b t)) = ctimer_ok t"
  "ctimer_ok (server_resumeAccepting t) = ctimer_ok t"
  "ctimer_ok (server_pauseAccepting t) = ctimer_ok t"
  "ctimer_ok (server_close t) = ctimer_ok t"
  "ctimer_ok (remote_connectToHost h p pr d t) = ctimer_ok t"
  "ctimer_ok (snd (remote_blockSignals bl t)) = ctimer_ok t"
  "ctimer_ok (t\<lparr>local_socket := ls\<rparr>) = ctimer_ok t"
  "ctimer_ok (t\<lparr>local_server := sv\<rparr>) = ctimer_ok t"
  "ctimer_ok (t\<lparr>remote_socket := rs\<rparr>) = ctimer_ok t"
  "ctimer_ok (t\<lparr>queue := q\<rparr>) = ctimer_ok t"
  by (simp_all add: ctimer_ok_def prim_defs Let_def remote_state_def split: option.splits)

lemma startConnectionTimer_guard [simp]:
  "guard_of (startConnectionTimer t) = guard_of t"
  "ctimer_ok t \<Longrightarrow> ctimer_ok (startConnectionTimer t)"
  by (simp_all add: startConnectionTimer_def guard_of_def ctimer_ok_def)

lemma startLocalServer_guard [simp]:
  "guard_of (snd (startLocalServer b t)) = guard_of t"
  "ctimer_ok (snd (startLocalServer b t)) = ctimer_ok t"
proof -
  obtain r t1 where l: "server_listen b t = (r, t1)" by (cases "server_listen b t")
  have "guard_of t1 = guard_of t" "ctimer_ok t1 = ctimer_ok t"
    using prim_guard(3) [of b t] ctimer_ok_simps(4) [of b t] l by simp_all
  then show "guard_of (snd (startLocalServer b t)) = guard_of t"
    "ctimer_ok (snd (startLocalServer b t)) = ctimer_ok t"
    by (simp_all add: startLocalServer_def l)
qed

lemma stopLocalServer_guard [simp]:
  "guard_of (stopLocalServer t) = guard_of t"
  "ctimer_ok (stopLocalServer t) = ctimer_ok t"
  by (simp_all add: stopLocalServer_def Let_def split: option.splits)

lemma processRemoteSocketDisconnected_guard [simp]:
  "guard_of (processRemoteSocketDisconnected t) = guard_of t"
  "ctimer_ok (processRemoteSocketDisconnected t)"
  by (simp_all add: processRemoteSocketDisconnected_def)

lemma raise_disconnected_guard [simp]:
  "guard_of (raise_disconnected t) = guard_of t"
  "ctimer_ok t \<Longrightarrow> ctimer_ok (raise_disconnected t)"
  by (simp_all add: raise_disconnected_def)

lemma signal_call_guard [simp]:
  "guard_of (remote_disconnectFromHost c t) = guard_of t"
  "ctimer_ok t \<Longrightarrow> ctimer_ok (remote_disconnectFromHost c t)"
  "guard_of (remote_abort t) = guard_of t"
  "ctimer_ok t \<Longrightarrow> ctimer_ok (remote_abort t)"
  by (simp_all add: remote_disconnectFromHost_def remote_abort_def Let_def)

lemma disconnectRemoteSocket_guard [simp]:
  "guard_of (disconnectRemoteSocket g c t) = guard_of t"
  "ctimer_ok (disconnectRemoteSocket g c t)"
proof -
  let ?t1 = "t\<lparr>connection_timer := None\<rparr>"
  obtain l t2 where b: "remote_blockSignals True ?t1 = (l, t2)"
    by (cases "remote_blockSignals True ?t1")
  have "guard_of t2 = guard_of t" "ctimer_ok t2"
    using prim_guard(8) [of True ?t1] ctimer_ok_simps(9) [of True ?t1] b by simp_all
  then show "guard_of (disconnectRemoteSocket g c t) = guard_of t"
    "ctimer_ok (disconnectRemoteSocket g c t)"
    by (simp_all add: disconnectRemoteSocket_def Let_def b)
qed

lemma abortChannel_guard [simp]:
  "guard_of (abortChannel t) = guard_of t"
  "ctimer_ok t \<Longrightarrow> ctimer_ok (abortChannel t)"
  by (simp_all add: abortChannel_def split: SocketState.splits)

lemma closeChannel_guard [simp]:
  "guard_of (closeChannel c t) = guard_of t"
  "ctimer_ok t \<Longrightarrow> ctimer_ok (closeChannel c t)"
  by (simp_all add: closeChannel_def split: SocketState.splits)

lemma openChannel_guard [simp]:
  "guard_of (openChannel h p pr b d t) = guard_of t"
  "ctimer_ok t \<Longrightarrow> ctimer_ok (openChannel h p pr b d t)"
proof -
  let ?t1 = "if remote_state t \<noteq> UnconnectedState then emit (ChannelOpened False 0) t else t"
  obtain r t2 where l: "startLocalServer b ?t1 = (r, t2)" by (cases "startLocalServer b ?t1")
  have g: "guard_of t2 = guard_of t" and c: "ctimer_ok t2 = ctimer_ok t"
    using startLocalServer_guard [of b ?t1] l by (simp_all split: if_splits)
  show "guard_of (openChannel h p pr b d t) = guard_of t"
    using g by (simp add: openChannel_def Let_def l)
  show "ctimer_ok t \<Longrightarrow> ctimer_ok (openChannel h p pr b d t)"
    using c by (simp add: openChannel_def Let_def l)
qed

lemma setRemoteSocketOption_guard [simp]:
  "guard_of (setRemoteSocketOption opt v t) = guard_of t"
  "ctimer_ok (setRemoteSocketOption opt v t) = ctimer_ok t"
  by (simp_all add: setRemoteSocketOption_def)

lemma applyRemoteSocketKeepaliveParams_guard [simp]:
  "guard_of (applyRemoteSocketKeepaliveParams e t) = guard_of t"
  "ctimer_ok (applyRemoteSocketKeepaliveParams e t) = ctimer_ok t"
  by (simp_all add: applyRemoteSocketKeepaliveParams_def Let_def)

lemma processRemoteSocketConnected_guard:
  "processRemoteSocketConnected e t = Inr t' \<Longrightarrow> guard_of t' = guard_of t \<and> ctimer_ok t'"
  by (auto simp: processRemoteSocketConnected_def Let_def split: if_splits)

lemma processConnectionFailure_guard:
  "processConnectionFailure se t = Inr t' \<Longrightarrow> guard_of t' = guard_of t \<and> ctimer_ok t'"
  by (auto simp: processConnectionFailure_def Let_def split: SocketState.splits)

lemma processRemoteSocketError_guard:
  "processRemoteSocketError t = Inr t' \<Longrightarrow> guard_of t' = guard_of t \<and> ctimer_ok t'"
  by (auto simp: processRemoteSocketError_def dest: processConnectionFailure_guard)

lemma processConnectionTimeout_guard:
  "processConnectionTimeout t = Inr t' \<Longrightarrow> guard_of t' = guard_of t \<and> ctimer_ok t'"
  by (auto simp: processConnectionTimeout_def dest: processConnectionFailure_guard)

lemma processLocalServerNewConnection_guard:
  "processLocalServerNewConnection t = Inr t' \<Longrightarrow>
     guard_of t' = guard_of t \<and> ctimer_ok t' = ctimer_ok t"
  by (auto simp: processLocalServerNewConnection_def Let_def split: if_splits list.splits)

lemma put_socket_guard [simp]:
  "guard_of (put_socket e s t) = guard_of t"
  "ctimer_ok (put_socket e s t) = ctimer_ok t"
  by (simp_all add: put_socket_def split: endpoint.splits)

lemma transferDataFromSocketToSocket_guard:
  "transferDataFromSocketToSocket w src dst t = Inr t' \<Longrightarrow>
     guard_of t' = guard_of t \<and> ctimer_ok t' = ctimer_ok t"
  by (auto simp: transferDataFromSocketToSocket_def Let_def split: option.splits if_splits)

lemma processReadyRead_guard:
  "processRemoteSocketReadyRead w t = Inr t' \<Longrightarrow>
     guard_of t' = guard_of t \<and> ctimer_ok t' = ctimer_ok t"
  "processLocalSocketReadyRead w t = Inr t' \<Longrightarrow>
     guard_of t' = guard_of t \<and> ctimer_ok t' = ctimer_ok t"
  by (auto simp: processRemoteSocketReadyRead_def processLocalSocketReadyRead_def
           dest: transferDataFromSocketToSocket_guard split: if_splits)



subsection \<open>The hard teardown\<close>

lemma disconnectRemoteSocket_abort:
  "disconnectRemoteSocket False c t =
     t\<lparr>connection_timer := None,
       remote_socket := (remote_socket t)\<lparr>sock_state := UnconnectedState, readable := []\<rparr>,
       calls := calls t @ [SocketAbort Remote]\<rparr>"
  by (simp add: disconnectRemoteSocket_def prim_defs Let_def)

lemma stopLocalServer_facts:
  "remote_socket (stopLocalServer t) = remote_socket t"
  "isListening (local_server (stopLocalServer t)) = False"
  "local_socket (stopLocalServer t) = None"
  "connection_timer (stopLocalServer t) = connection_timer t"
  "emitted (stopLocalServer t) = emitted t"
  "queue (stopLocalServer t) = queue t"
  "calls (stopLocalServer t) =
     calls t @ (if isListening (local_server t) then [ServerClose] else []) @
     (if local_socket t \<noteq> None then [SocketAbort Local, SocketDeleteLater Local] else [])"
  by (auto simp: stopLocalServer_def prim_defs Let_def split: option.splits)

lemma hard_teardown:
  "remote_state (stopLocalServer (disconnectRemoteSocket False c t)) = UnconnectedState"
  "isListening (local_server (stopLocalServer (disconnectRemoteSocket False c t))) = False"
  "local_socket (stopLocalServer (disconnectRemoteSocket False c t)) = None"
  "connection_timer (stopLocalServer (disconnectRemoteSocket False c t)) = None"
  "emitted (stopLocalServer (disconnectRemoteSocket False c t)) = emitted t"
  "queue (stopLocalServer (disconnectRemoteSocket False c t)) = queue t"
  "calls (stopLocalServer (disconnectRemoteSocket False c t)) =
     calls t @ [SocketAbort Remote] @ (if isListening (local_server t) then [ServerClose] else []) @
     (if local_socket t \<noteq> None then [SocketAbort Local, SocketDeleteLater Local] else [])"
  by (simp_all add: stopLocalServer_facts remote_state_def) (simp_all add: disconnectRemoteSocket_abort)

lemma emit_facts [simp]:
  "remote_state (emit s t) = remote_state t"
  "local_server (emit s t) = local_server t"
  "local_socket (emit s t) = local_socket t"
  "calls (emit s t) = calls t"
  "queue (emit s t) = queue t"
  "emitted (emit s t) = emitted t @ [s]"
  "remote_socket (emit s t) = remote_socket t"
  by (simp_all add: emit_def remote_state_def)

subsection \<open>Connection failure (C5)\<close>

text \<open>
  C5. A connection failure while the remote socket is looking up or connecting aborts the dial,
  stops the listener and the peer, and emits \<open>Remote connect attempt timed out\<close> exactly when
  it is a timeout and not a socket error, then \<open>channelOpened(false)\<close>; while the socket is
  closing it does the same with \<open>Remote disconnect attempt timed out, aborting\<close> and
  \<open>channelClosed(true)\<close>. The timer's slot passes \<open>socket_error = false\<close>, the slot of the
  socket error passes \<open>true\<close> after its own error message.
\<close>

theorem C5_processConnectionFailure:
  "(remote_state t \<in> {HostLookupState, ConnectingState} \<longrightarrow>
      (\<exists>t'. processConnectionFailure socket_error t = Inr t' \<and>
         emitted t' = emitted t @
           (if socket_error then [] else [ChannelError ''Remote connect attempt timed out'']) @
           [ChannelOpened False 0] \<and>
         remote_state t' = UnconnectedState \<and> \<not> isListening (local_server t') \<and>
         local_socket t' = None \<and> connection_timer t' = None \<and>
         calls t' = calls t @ [SocketAbort Remote] @
           (if isListening (local_server t) then [ServerClose] else []) @
           (if local_socket t \<noteq> None then [SocketAbort Local, SocketDeleteLater Local] else []))) \<and>
   (remote_state t = ClosingState \<longrightarrow>
      (\<exists>t'. processConnectionFailure socket_error t = Inr t' \<and>
         emitted t' = emitted t @
           (if socket_error then []
            else [ChannelError ''Remote disconnect attempt timed out, aborting'']) @
           [ChannelClosed True] \<and>
         remote_state t' = UnconnectedState \<and> \<not> isListening (local_server t') \<and>
         local_socket t' = None \<and> connection_timer t' = None \<and>
         calls t' = calls t @ [SocketAbort Remote] @
           (if isListening (local_server t) then [ServerClose] else []) @
           (if local_socket t \<noteq> None then [SocketAbort Local, SocketDeleteLater Local] else []))) \<and>
   processConnectionTimeout t = processConnectionFailure False t \<and>
   processRemoteSocketError t =
     processConnectionFailure True
       (emit (ChannelError (''Remote connection error: '' @ errorString (remote_socket t))) t)"
proof (intro conjI impI)
  assume "remote_state t \<in> {HostLookupState, ConnectingState}"
  then show "\<exists>t'. processConnectionFailure socket_error t = Inr t' \<and>
         emitted t' = emitted t @
           (if socket_error then [] else [ChannelError ''Remote connect attempt timed out'']) @
           [ChannelOpened False 0] \<and>
         remote_state t' = UnconnectedState \<and> \<not> isListening (local_server t') \<and>
         local_socket t' = None \<and> connection_timer t' = None \<and>
         calls t' = calls t @ [SocketAbort Remote] @
           (if isListening (local_server t) then [ServerClose] else []) @
           (if local_socket t \<noteq> None then [SocketAbort Local, SocketDeleteLater Local] else [])"
    by (auto simp: processConnectionFailure_def hard_teardown Let_def)
next
  assume "remote_state t = ClosingState"
  then show "\<exists>t'. processConnectionFailure socket_error t = Inr t' \<and>
         emitted t' = emitted t @
           (if socket_error then []
            else [ChannelError ''Remote disconnect attempt timed out, aborting'']) @
           [ChannelClosed True] \<and>
         remote_state t' = UnconnectedState \<and> \<not> isListening (local_server t') \<and>
         local_socket t' = None \<and> connection_timer t' = None \<and>
         calls t' = calls t @ [SocketAbort Remote] @
           (if isListening (local_server t) then [ServerClose] else []) @
           (if local_socket t \<noteq> None then [SocketAbort Local, SocketDeleteLater Local] else [])"
    by (auto simp: processConnectionFailure_def hard_teardown Let_def)
next
  show "processConnectionTimeout t = processConnectionFailure False t"
    by (simp add: processConnectionTimeout_def)
next
  show "processRemoteSocketError t =
     processConnectionFailure True
       (emit (ChannelError (''Remote connection error: '' @ errorString (remote_socket t))) t)"
    by (simp add: processRemoteSocketError_def)
qed

theorem C5_witness:
  "remote_state connecting_tunnel \<in> {HostLookupState, ConnectingState} \<and>
   remote_state closing_tunnel = ClosingState \<and>
   (\<exists>t'. processConnectionTimeout connecting_tunnel = Inr t' \<and>
      emitted t' = [ChannelError ''Remote connect attempt timed out'', ChannelOpened False 0] \<and>
      remote_state t' = UnconnectedState \<and> \<not> isListening (local_server t')) \<and>
   (\<exists>t'. processConnectionFailure True closing_tunnel = Inr t' \<and>
      emitted t' = [ChannelOpened True 40000, ChannelClosed True] \<and>
      remote_state t' = UnconnectedState \<and> local_socket t' = None)"
proof -
  have a: "remote_state connecting_tunnel \<in> {HostLookupState, ConnectingState}"
    by (simp add: connecting_tunnel_eq remote_state_def fresh_socket_def)
  have b: "remote_state closing_tunnel = ClosingState"
    by (simp add: closing_tunnel_eq remote_state_def fresh_socket_def)
  have e: "emitted connecting_tunnel = []" "emitted closing_tunnel = [ChannelOpened True 40000]"
    by (simp_all add: connecting_tunnel_eq closing_tunnel_eq connected_tunnel_eq)
  show ?thesis
    using a b e C5_processConnectionFailure [of connecting_tunnel False]
      C5_processConnectionFailure [of closing_tunnel True]
    by auto
qed

subsection \<open>Abort (C3)\<close>

text \<open>
  C3 (amended). From a socket that is looking up, connecting or connected,
  \<open>abortChannel\<close> aborts the remote socket (no graceful disconnect), closes the listener and
  destroys the peer, stops the connection timer and leaves the remote socket unconnected; from
  an unconnected or a closing socket it does nothing. It never emits a signal, and a second
  call in a row changes nothing.
\<close>

theorem C3_abortChannel:
  "(remote_state t \<in> {HostLookupState, ConnectingState, ConnectedState} \<longrightarrow>
      remote_state (abortChannel t) = UnconnectedState \<and>
      \<not> isListening (local_server (abortChannel t)) \<and>
      local_socket (abortChannel t) = None \<and>
      connection_timer (abortChannel t) = None \<and>
      calls (abortChannel t) = calls t @ [SocketAbort Remote] @
        (if isListening (local_server t) then [ServerClose] else []) @
        (if local_socket t \<noteq> None then [SocketAbort Local, SocketDeleteLater Local] else [])) \<and>
   (remote_state t \<in> {UnconnectedState, ClosingState} \<longrightarrow> abortChannel t = t) \<and>
   emitted (abortChannel t) = emitted t \<and>
   abortChannel (abortChannel t) = abortChannel t"
proof -
  have idem: "abortChannel (abortChannel t) = abortChannel t"
  proof (cases "remote_state t \<in> {HostLookupState, ConnectingState, ConnectedState}")
    case True
    then have "remote_state (abortChannel t) = UnconnectedState"
      by (auto simp: abortChannel_def hard_teardown)
    then show ?thesis
      by (simp add: abortChannel_def [of "abortChannel t"])
  next
    case False
    then have "abortChannel t = t"
      by (cases "remote_state t") (simp_all add: abortChannel_def)
    then show ?thesis by simp
  qed
  have quiet: "emitted (abortChannel t) = emitted t"
    by (cases "remote_state t") (simp_all add: abortChannel_def hard_teardown)
  show ?thesis
    using idem quiet by (auto simp: abortChannel_def hard_teardown)
qed

theorem C3_witness:
  "remote_state connected_tunnel \<in> {HostLookupState, ConnectingState, ConnectedState} \<and>
   remote_state (abortChannel connected_tunnel) = UnconnectedState \<and>
   local_socket (abortChannel connected_tunnel) = None \<and>
   emitted (abortChannel connected_tunnel) = [ChannelOpened True 40000] \<and>
   remote_state configured_tunnel \<in> {UnconnectedState, ClosingState} \<and>
   abortChannel configured_tunnel = configured_tunnel"
proof -
  have a: "remote_state connected_tunnel \<in> {HostLookupState, ConnectingState, ConnectedState}"
    by (simp add: connected_tunnel_eq remote_state_def fresh_socket_def)
  have b: "remote_state configured_tunnel \<in> {UnconnectedState, ClosingState}"
    by (simp add: configured_tunnel_def RemoteDBusConnectionTunnel_new_def remote_state_def
          fresh_socket_def)
  have e: "emitted connected_tunnel = [ChannelOpened True 40000]"
    by (simp add: connected_tunnel_eq)
  show ?thesis
    using a b e C3_abortChannel [of connected_tunnel] C3_abortChannel [of configured_tunnel]
    by simp
qed

text \<open>
  While a graceful disconnect is in progress \<open>abortChannel\<close> leaves the socket closing and the
  listener up.
\<close>

theorem C3_counterexample:
  "remote_state closing_tunnel \<noteq> UnconnectedState \<and>
   remote_state (abortChannel closing_tunnel) = ClosingState \<and>
   isListening (local_server (abortChannel closing_tunnel)) \<and>
   local_socket (abortChannel closing_tunnel) \<noteq> None"
  by (simp add: abortChannel_def closing_tunnel_eq connected_tunnel_eq remote_state_def
        fresh_socket_def)

subsection \<open>The signals of the remote socket stay unblocked\<close>

text \<open>
  \<open>disconnectRemoteSocket\<close> restores the blocking state it found, and nothing else changes
  it: in every state reached from the constructor by events, the signals of the remote socket
  are not blocked. Storing a timeout is the corresponding event.
\<close>

lemma blocked_updates [simp]:
  "remote_blocked (t\<lparr>connection_timer := x\<rparr>) = remote_blocked t"
  "remote_blocked (t\<lparr>wrapped_operation_timer := x\<rparr>) = remote_blocked t"
  "remote_blocked (t\<lparr>wrapped_operation_timed_out := b\<rparr>) = remote_blocked t"
  "remote_blocked (t\<lparr>wrapped_operation_semaphore := n\<rparr>) = remote_blocked t"
  "remote_blocked (t\<lparr>connection_timeout_ms := v\<rparr>) = remote_blocked t"
  "remote_blocked (t\<lparr>wrapped_operation_timeout_ms := v\<rparr>) = remote_blocked t"
  "remote_blocked (t\<lparr>local_socket := ls\<rparr>) = remote_blocked t"
  "remote_blocked (t\<lparr>local_server := sv\<rparr>) = remote_blocked t"
  "remote_blocked (t\<lparr>queue := q\<rparr>) = remote_blocked t"
  "remote_blocked (t\<lparr>remote_socket := rs\<rparr>) = signalsBlocked rs"
  by (simp_all add: remote_blocked_def)

lemma prim_blocked [simp]:
  "remote_blocked (emit s t) = remote_blocked t"
  "remote_blocked (called k t) = remote_blocked t"
  "remote_blocked (snd (server_listen b t)) = remote_blocked t"
  "remote_blocked (server_resumeAccepting t) = remote_blocked t"
  "remote_blocked (server_pauseAccepting t) = remote_blocked t"
  "remote_blocked (server_close t) = remote_blocked t"
  "remote_blocked (remote_connectToHost h p pr d t) = remote_blocked t"
  "remote_blocked (snd (remote_blockSignals bl t)) = bl"
  "fst (remote_blockSignals bl t) = remote_blocked t"
  by (simp_all add: remote_blocked_def emit_def called_def server_listen_def
        server_resumeAccepting_def server_pauseAccepting_def server_close_def
        remote_connectToHost_def remote_blockSignals_def Let_def split: option.splits)

lemma startConnectionTimer_blocked [simp]:
  "remote_blocked (startConnectionTimer t) = remote_blocked t"
  by (simp add: startConnectionTimer_def)

lemma startLocalServer_blocked [simp]:
  "remote_blocked (snd (startLocalServer b t)) = remote_blocked t"
proof -
  obtain r t1 where l: "server_listen b t = (r, t1)" by (cases "server_listen b t")
  have "remote_blocked t1 = remote_blocked t"
    using prim_blocked(3) [of b t] l by simp
  then show ?thesis by (simp add: startLocalServer_def l)
qed

lemma stopLocalServer_blocked [simp]:
  "remote_blocked (stopLocalServer t) = remote_blocked t"
  by (simp add: stopLocalServer_def Let_def split: option.splits)

lemma processRemoteSocketDisconnected_blocked [simp]:
  "remote_blocked (processRemoteSocketDisconnected t) = remote_blocked t"
  by (simp add: processRemoteSocketDisconnected_def)

lemma signal_call_blocked [simp]:
  "remote_blocked (raise_disconnected t) = remote_blocked t"
  "remote_blocked (remote_disconnectFromHost c t) = remote_blocked t"
  "remote_blocked (remote_abort t) = remote_blocked t"
  by (simp_all add: raise_disconnected_def remote_disconnectFromHost_def remote_abort_def Let_def)
     (simp_all add: remote_blocked_def called_def)

lemma disconnectRemoteSocket_blocked [simp]:
  "remote_blocked (disconnectRemoteSocket g c t) = remote_blocked t"
proof -
  let ?t1 = "t\<lparr>connection_timer := None\<rparr>"
  obtain l t2 where b: "remote_blockSignals True ?t1 = (l, t2)"
    by (cases "remote_blockSignals True ?t1")
  have "l = remote_blocked t"
    using prim_blocked(9) [of True ?t1] b by simp
  then show ?thesis
    by (simp add: disconnectRemoteSocket_def Let_def b)
qed

lemma channel_blocked [simp]:
  "remote_blocked (abortChannel t) = remote_blocked t"
  "remote_blocked (closeChannel c t) = remote_blocked t"
  by (simp_all add: abortChannel_def closeChannel_def split: SocketState.splits)

lemma openChannel_blocked [simp]:
  "remote_blocked (openChannel h p pr b d t) = remote_blocked t"
proof -
  let ?t1 = "if remote_state t \<noteq> UnconnectedState then emit (ChannelOpened False 0) t else t"
  obtain r t2 where l: "startLocalServer b ?t1 = (r, t2)" by (cases "startLocalServer b ?t1")
  have "remote_blocked t2 = remote_blocked t"
    using startLocalServer_blocked [of b ?t1] l by (simp split: if_splits)
  then show ?thesis
    by (simp add: openChannel_def Let_def l)
qed

lemma option_blocked [simp]:
  "remote_blocked (setRemoteSocketOption opt v t) = remote_blocked t"
  "remote_blocked (applyRemoteSocketKeepaliveParams e t) = remote_blocked t"
  by (simp_all add: setRemoteSocketOption_def applyRemoteSocketKeepaliveParams_def Let_def)
     (simp add: remote_blocked_def called_def)

lemma slot_blocked:
  "processRemoteSocketConnected e t = Inr t' \<Longrightarrow> remote_blocked t' = remote_blocked t"
  "processConnectionFailure se t = Inr t' \<Longrightarrow> remote_blocked t' = remote_blocked t"
  "processLocalServerNewConnection t = Inr t' \<Longrightarrow> remote_blocked t' = remote_blocked t"
  by (auto simp: processRemoteSocketConnected_def processConnectionFailure_def
        processLocalServerNewConnection_def Let_def
        split: if_splits SocketState.splits list.splits)

lemma failure_blocked:
  "processRemoteSocketError t = Inr t' \<Longrightarrow> remote_blocked t' = remote_blocked t"
  "processConnectionTimeout t = Inr t' \<Longrightarrow> remote_blocked t' = remote_blocked t"
  by (auto simp: processRemoteSocketError_def processConnectionTimeout_def
        dest: slot_blocked(2))

lemma transfer_blocked:
  "transferDataFromSocketToSocket w src dst t = Inr t' \<Longrightarrow>
     remote_blocked t' = remote_blocked t"
  by (cases src; cases dst)
     (auto simp: transferDataFromSocketToSocket_def socket_of_def put_socket_def called_def
        remote_blocked_def Let_def split: option.splits if_splits)

lemma readyRead_blocked:
  "processRemoteSocketReadyRead w t = Inr t' \<Longrightarrow> remote_blocked t' = remote_blocked t"
  "processLocalSocketReadyRead w t = Inr t' \<Longrightarrow> remote_blocked t' = remote_blocked t"
  by (auto simp: processRemoteSocketReadyRead_def processLocalSocketReadyRead_def
        dest: transfer_blocked split: if_splits)

lemma guard_blocked [simp]:
  "remote_blocked (state_of (syncStartWrappedOperation t)) = remote_blocked t"
  "remote_blocked (state_of (syncStartWrappedOperation_acquire t)) = remote_blocked t"
  "remote_blocked (asyncStopWrappedOperation t) = remote_blocked t"
  "remote_blocked (state_of (processWrappedOperationTimeout_acquire t)) = remote_blocked t"
  "remote_blocked (state_of (processWrappedOperationTimeout t)) = remote_blocked t"
  by (simp_all add: syncStartWrappedOperation_def syncStartWrappedOperation_acquire_def
        asyncStopWrappedOperation_def processWrappedOperationTimeout_acquire_def
        processWrappedOperationTimeout_def semaphore_acquire_def semaphore_release_def
        state_of_def Let_def)

lemma env_blocked [simp]:
  "remote_blocked (set_remote st t) = remote_blocked t"
  "remote_blocked (run_queued b d c t) = remote_blocked t"
  by (simp_all add: set_remote_def run_queued_def Let_def split: list.splits queued_call.splits)
     (simp add: remote_blocked_def)

lemma arrive_blocked [simp]:
  "remote_blocked (arrive e bs t) = remote_blocked t"
  by (cases e)
     (simp_all add: arrive_def socket_of_def put_socket_def remote_blocked_def
        split: option.splits)

lemma handle_blocked:
  assumes h: "handle ev t = Inr t'"
  shows "remote_blocked t' = remote_blocked t"
proof (cases ev)
  case (RemoteSocketError st msg)
  let ?u = "t\<lparr>remote_socket := (remote_socket t)\<lparr>sock_state := st, errorString := msg\<rparr>\<rparr>"
  have "processRemoteSocketError ?u = Inr t'"
    using h RemoteSocketError by (simp add: handle_def)
  from failure_blocked(1) [OF this] show ?thesis
    by (simp add: remote_blocked_def)
next
  case LocalServerNewConnection
  let ?u = "t\<lparr>local_server := (local_server t)
           \<lparr>pendingConnections := pendingConnections (local_server t) @
              [fresh_socket\<lparr>sock_state := ConnectedState\<rparr>]\<rparr>\<rparr>"
  have "processLocalServerNewConnection ?u = Inr t'"
    using h LocalServerNewConnection by (simp add: handle_def)
  from slot_blocked(3) [OF this] show ?thesis by simp
qed (use h in \<open>auto simp: handle_def dest: slot_blocked failure_blocked readyRead_blocked
       split: if_splits\<close>)

lemma run_blocked:
  "run evs t = Inr t' \<Longrightarrow> remote_blocked t' = remote_blocked t"
proof (induction evs arbitrary: t)
  case Nil
  then show ?case by simp
next
  case (Cons ev evs)
  then obtain t1 where s: "handle ev t = Inr t1" "run evs t1 = Inr t'"
    by (auto split: sum.splits)
  show ?case
    using handle_blocked [OF s(1)] Cons.IH [OF s(2)] by simp
qed

lemma run_from_constructor_unblocked:
  "run evs RemoteDBusConnectionTunnel_new = Inr t \<Longrightarrow> \<not> signalsBlocked (remote_socket t)"
  using run_blocked [of evs RemoteDBusConnectionTunnel_new t]
  by (simp add: remote_blocked_def RemoteDBusConnectionTunnel_new_def fresh_socket_def)

lemma setTimeout_events:
  "setConnectionTimeout v f = on_tunnel [SetConnectionTimeout v] f"
  "setWrappedOperationTimeout v f = on_tunnel [SetWrappedOperationTimeout v] f"
  by (simp_all add: setConnectionTimeout_def setWrappedOperationTimeout_def on_tunnel_def
        handle_def)

subsection \<open>Close (C4)\<close>

lemma remote_facts:
  "remote_socket (emit s t) = remote_socket t"
  "remote_socket (stopLocalServer t) = remote_socket t"
  "remote_state (stopLocalServer t) = remote_state t"
  "remote_state (t\<lparr>connection_timer := x\<rparr>) = remote_state t"
  by (simp_all add: stopLocalServer_facts remote_state_def)

lemma processRemoteSocketDisconnected_facts:
  "remote_state (processRemoteSocketDisconnected t) = remote_state t"
  "isListening (local_server (processRemoteSocketDisconnected t)) = False"
  "local_socket (processRemoteSocketDisconnected t) = None"
  "connection_timer (processRemoteSocketDisconnected t) = None"
  "emitted (processRemoteSocketDisconnected t) = emitted t @ [ChannelClosed True]"
  "calls (processRemoteSocketDisconnected t) =
     calls t @ (if isListening (local_server t) then [ServerClose] else []) @
     (if local_socket t \<noteq> None then [SocketAbort Local, SocketDeleteLater Local] else [])"
  by (simp_all add: processRemoteSocketDisconnected_def stopLocalServer_facts remote_facts)

lemma disconnectRemoteSocket_pending:
  "remote_state t = ConnectedState \<Longrightarrow>
   disconnectRemoteSocket True False t =
     t\<lparr>connection_timer :=
         (if connection_timeout_ms t \<noteq> - 1 then Some (connection_timeout_ms t) else None),
       remote_socket := (remote_socket t)\<lparr>sock_state := ClosingState\<rparr>,
       calls := calls t @ [DisconnectFromHost]\<rparr>"
  by (simp add: disconnectRemoteSocket_def remote_disconnectFromHost_def called_def
        remote_state_def startConnectionTimer_def Let_def)

lemma disconnectRemoteSocket_at_once:
  "remote_state t = ConnectedState \<Longrightarrow> \<not> signalsBlocked (remote_socket t) \<Longrightarrow>
   disconnectRemoteSocket True True t =
     processRemoteSocketDisconnected
       (t\<lparr>connection_timer := None,
          calls := calls t @ [DisconnectFromHost],
          remote_socket := (remote_socket t)\<lparr>sock_state := UnconnectedState\<rparr>\<rparr>)"
proof -
  let ?u = "t\<lparr>connection_timer := None,
          calls := calls t @ [DisconnectFromHost],
          remote_socket := (remote_socket t)\<lparr>sock_state := UnconnectedState\<rparr>\<rparr>"
  assume a: "remote_state t = ConnectedState" "\<not> signalsBlocked (remote_socket t)"
  have d: "remote_disconnectFromHost True (t\<lparr>connection_timer := None\<rparr>) =
      processRemoteSocketDisconnected ?u"
    using a
    by (simp add: remote_disconnectFromHost_def raise_disconnected_def called_def
          remote_state_def Let_def)
  have "remote_state (processRemoteSocketDisconnected ?u) = UnconnectedState"
    by (simp add: processRemoteSocketDisconnected_facts) (simp add: remote_state_def)
  then show ?thesis
    by (simp add: disconnectRemoteSocket_def Let_def d)
qed

text \<open>
  C4 (amended). \<open>closeChannel\<close> by the state of the remote socket: unconnected, it only
  emits \<open>channelClosed(false)\<close>; looking up or connecting, it aborts the dial, stops the
  listener and the peer and emits \<open>channelClosed(true)\<close>; connected, it asks for a graceful
  disconnect: if that stays pending the socket is closing, the timer is started (when a timeout
  is configured), listener and peer are left alone and nothing is emitted; if it completes at
  once (the signals of the socket not being blocked, as in every state reached from the
  constructor), the slot of \<^verbatim>\<open>disconnected()\<close> has run inside the call, so the listener is
  closed, the peer is destroyed, \<open>channelClosed(true)\<close> is emitted, the socket is unconnected
  and no timer is started; closing, it does nothing.
\<close>

theorem C4_closeChannel:
  "(remote_state t = UnconnectedState \<longrightarrow>
      closeChannel completes t = t\<lparr>emitted := emitted t @ [ChannelClosed False]\<rparr>) \<and>
   (remote_state t \<in> {HostLookupState, ConnectingState} \<longrightarrow>
      emitted (closeChannel completes t) = emitted t @ [ChannelClosed True] \<and>
      remote_state (closeChannel completes t) = UnconnectedState \<and>
      \<not> isListening (local_server (closeChannel completes t)) \<and>
      local_socket (closeChannel completes t) = None \<and>
      connection_timer (closeChannel completes t) = None \<and>
      calls (closeChannel completes t) = calls t @ [SocketAbort Remote] @
        (if isListening (local_server t) then [ServerClose] else []) @
        (if local_socket t \<noteq> None then [SocketAbort Local, SocketDeleteLater Local] else [])) \<and>
   (remote_state t = ConnectedState \<and> \<not> completes \<longrightarrow>
      emitted (closeChannel completes t) = emitted t \<and>
      local_server (closeChannel completes t) = local_server t \<and>
      local_socket (closeChannel completes t) = local_socket t \<and>
      calls (closeChannel completes t) = calls t @ [DisconnectFromHost] \<and>
      remote_state (closeChannel completes t) = ClosingState \<and>
      connection_timer (closeChannel completes t) =
        (if connection_timeout_ms t \<noteq> - 1 then Some (connection_timeout_ms t) else None)) \<and>
   (remote_state t = ConnectedState \<and> completes \<and> \<not> signalsBlocked (remote_socket t) \<longrightarrow>
      emitted (closeChannel completes t) = emitted t @ [ChannelClosed True] \<and>
      remote_state (closeChannel completes t) = UnconnectedState \<and>
      \<not> isListening (local_server (closeChannel completes t)) \<and>
      local_socket (closeChannel completes t) = None \<and>
      connection_timer (closeChannel completes t) = None \<and>
      calls (closeChannel completes t) = calls t @ [DisconnectFromHost] @
        (if isListening (local_server t) then [ServerClose] else []) @
        (if local_socket t \<noteq> None then [SocketAbort Local, SocketDeleteLater Local] else [])) \<and>
   (remote_state t = ClosingState \<longrightarrow> closeChannel completes t = t)"
proof (intro conjI impI)
  assume "remote_state t = UnconnectedState"
  then show "closeChannel completes t = t\<lparr>emitted := emitted t @ [ChannelClosed False]\<rparr>"
    by (simp add: closeChannel_def emit_def)
next
  assume "remote_state t = ClosingState"
  then show "closeChannel completes t = t"
    by (simp add: closeChannel_def)
next
  assume a: "remote_state t = ConnectedState \<and> \<not> completes"
  then have eq: "closeChannel completes t = disconnectRemoteSocket True False t"
    by (simp add: closeChannel_def)
  have c: "remote_state t = ConnectedState" using a by simp
  show "emitted (closeChannel completes t) = emitted t"
    "local_server (closeChannel completes t) = local_server t"
    "local_socket (closeChannel completes t) = local_socket t"
    "calls (closeChannel completes t) = calls t @ [DisconnectFromHost]"
    "remote_state (closeChannel completes t) = ClosingState"
    "connection_timer (closeChannel completes t) =
       (if connection_timeout_ms t \<noteq> - 1 then Some (connection_timeout_ms t) else None)"
    by (simp_all add: eq disconnectRemoteSocket_pending [OF c] remote_state_def)
next
  assume a: "remote_state t = ConnectedState \<and> completes \<and> \<not> signalsBlocked (remote_socket t)"
  then have eq: "closeChannel completes t = disconnectRemoteSocket True True t"
    by (simp add: closeChannel_def)
  have c: "remote_state t = ConnectedState" "\<not> signalsBlocked (remote_socket t)"
    using a by simp_all
  show "emitted (closeChannel completes t) = emitted t @ [ChannelClosed True]"
    "\<not> isListening (local_server (closeChannel completes t))"
    "local_socket (closeChannel completes t) = None"
    "connection_timer (closeChannel completes t) = None"
    "calls (closeChannel completes t) = calls t @ [DisconnectFromHost] @
        (if isListening (local_server t) then [ServerClose] else []) @
        (if local_socket t \<noteq> None then [SocketAbort Local, SocketDeleteLater Local] else [])"
    by (simp_all add: eq disconnectRemoteSocket_at_once [OF c]
          processRemoteSocketDisconnected_facts)
  show "remote_state (closeChannel completes t) = UnconnectedState"
    by (simp add: eq disconnectRemoteSocket_at_once [OF c]
          processRemoteSocketDisconnected_facts) (simp add: remote_state_def)
next
  assume "remote_state t \<in> {HostLookupState, ConnectingState}"
  then have eq: "closeChannel completes t =
      emit (ChannelClosed True) (stopLocalServer (disconnectRemoteSocket False completes t))"
    by (auto simp: closeChannel_def)
  show "emitted (closeChannel completes t) = emitted t @ [ChannelClosed True]"
    "remote_state (closeChannel completes t) = UnconnectedState"
    "\<not> isListening (local_server (closeChannel completes t))"
    "local_socket (closeChannel completes t) = None"
    "connection_timer (closeChannel completes t) = None"
    "calls (closeChannel completes t) = calls t @ [SocketAbort Remote] @
        (if isListening (local_server t) then [ServerClose] else []) @
        (if local_socket t \<noteq> None then [SocketAbort Local, SocketDeleteLater Local] else [])"
    by (simp_all add: eq hard_teardown)
qed

theorem C4_witness:
  "remote_state configured_tunnel = UnconnectedState \<and>
   emitted (closeChannel False configured_tunnel) = [ChannelClosed False] \<and>
   remote_state connecting_tunnel \<in> {HostLookupState, ConnectingState} \<and>
   emitted (closeChannel False connecting_tunnel) = [ChannelClosed True] \<and>
   remote_state (closeChannel False connecting_tunnel) = UnconnectedState \<and>
   remote_state connected_tunnel = ConnectedState \<and>
   \<not> signalsBlocked (remote_socket connected_tunnel) \<and>
   remote_state (closeChannel False connected_tunnel) = ClosingState \<and>
   connection_timer (closeChannel False connected_tunnel) = Some 500 \<and>
   local_socket (closeChannel False connected_tunnel) = local_socket connected_tunnel \<and>
   emitted (closeChannel False connected_tunnel) = [ChannelOpened True 40000] \<and>
   emitted (closeChannel True connected_tunnel) = [ChannelOpened True 40000, ChannelClosed True] \<and>
   local_socket (closeChannel True connected_tunnel) = None \<and>
   calls (closeChannel True connected_tunnel) =
     calls connected_tunnel @
     [DisconnectFromHost, ServerClose, SocketAbort Local, SocketDeleteLater Local] \<and>
   remote_state closing_tunnel = ClosingState \<and>
   closeChannel False closing_tunnel = closing_tunnel"
proof -
  have a: "remote_state configured_tunnel = UnconnectedState"
    "emitted configured_tunnel = []"
    by (simp_all add: configured_tunnel_def RemoteDBusConnectionTunnel_new_def remote_state_def
          fresh_socket_def)
  have b: "remote_state connecting_tunnel \<in> {HostLookupState, ConnectingState}"
    "emitted connecting_tunnel = []"
    by (simp_all add: connecting_tunnel_eq remote_state_def fresh_socket_def)
  have c: "remote_state connected_tunnel = ConnectedState"
    "\<not> signalsBlocked (remote_socket connected_tunnel)"
    "connection_timeout_ms connected_tunnel = 500"
    "emitted connected_tunnel = [ChannelOpened True 40000]"
    "isListening (local_server connected_tunnel)"
    "local_socket connected_tunnel \<noteq> None"
    by (simp_all add: connected_tunnel_eq remote_state_def fresh_socket_def)
  have d: "remote_state closing_tunnel = ClosingState"
    by (simp add: closing_tunnel_eq remote_state_def fresh_socket_def)
  show ?thesis
    using a b c d C4_closeChannel [of configured_tunnel False]
      C4_closeChannel [of connecting_tunnel False] C4_closeChannel [of connected_tunnel False]
      C4_closeChannel [of connected_tunnel True] C4_closeChannel [of closing_tunnel False]
    by simp
qed

text \<open>
  A graceful disconnect that completes at once: on return from \<open>closeChannel\<close> the socket is
  unconnected, not closing, no timer is started although a timeout of 500 ms is configured,
  and the listener and the peer are already torn down and \<open>channelClosed(true)\<close> emitted.
\<close>

theorem C4_counterexample:
  "remote_state connected_tunnel = ConnectedState \<and>
   connection_timeout_ms connected_tunnel = 500 \<and>
   remote_state (closeChannel True connected_tunnel) = UnconnectedState \<and>
   connection_timer (closeChannel True connected_tunnel) = None \<and>
   \<not> isListening (local_server (closeChannel True connected_tunnel)) \<and>
   local_socket (closeChannel True connected_tunnel) = None \<and>
   emitted (closeChannel True connected_tunnel) = [ChannelOpened True 40000, ChannelClosed True]"
  by (simp add: connected_tunnel_eq fresh_socket_def closeChannel_def disconnectRemoteSocket_def
        remote_disconnectFromHost_def raise_disconnected_def processRemoteSocketDisconnected_def
        stopLocalServer_def server_close_def startConnectionTimer_def called_def emit_def
        remote_state_def Let_def)

subsection \<open>Open (C2)\<close>

lemma openChannel_always_dials:
  "last (calls (openChannel h p pr bound dial t)) = ConnectToHost h p pr"
proof -
  let ?t1 = "if remote_state t \<noteq> UnconnectedState then emit (ChannelOpened False 0) t else t"
  obtain r t2 where l: "startLocalServer bound ?t1 = (r, t2)"
    by (cases "startLocalServer bound ?t1")
  show ?thesis
    by (simp add: openChannel_def Let_def l startConnectionTimer_def remote_connectToHost_def
          called_def emit_def)
qed

text \<open>
  C2. What \<open>openChannel\<close> does at two inputs. On the configured, idle tunnel with a listener
  that cannot be bound it emits the internal error and \<open>channelOpened(false)\<close>, and then
  dials the remote host and starts the connection timer. On the tunnel that is already
  connecting it emits \<open>channelOpened(false)\<close>, and then calls \<^verbatim>\<open>listen\<close> and
  \<^verbatim>\<open>connectToHost\<close>, emits the internal error and a second \<open>channelOpened(false)\<close>.
\<close>

theorem C2_openChannel_continues_after_failure:
  "openChannel ''remote.host'' 12345 AnyIPProtocol None ConnectingState configured_tunnel =
     configured_tunnel\<lparr>
       remote_socket := fresh_socket\<lparr>sock_state := ConnectingState\<rparr>,
       connection_timer := Some 500,
       emitted := [ChannelError ''Internal error: failed to start local server'',
                   ChannelOpened False 0],
       calls := [ServerListen, ConnectToHost ''remote.host'' 12345 AnyIPProtocol]\<rparr> \<and>
   remote_state connecting_tunnel = ConnectingState \<and>
   emitted (openChannel ''other.host'' 4321 AnyIPProtocol (Some 40001) ConnectingState
              connecting_tunnel) =
     [ChannelOpened False 0, ChannelError ''Internal error: failed to start local server'',
      ChannelOpened False 0] \<and>
   calls (openChannel ''other.host'' 4321 AnyIPProtocol (Some 40001) ConnectingState
            connecting_tunnel) =
     calls connecting_tunnel @ [ServerListen, ConnectToHost ''other.host'' 4321 AnyIPProtocol]"
  by (simp add: connecting_tunnel_eq configured_tunnel_def RemoteDBusConnectionTunnel_new_def
        fresh_socket_def openChannel_def startLocalServer_def startConnectionTimer_def
        prim_defs remote_state_def Let_def)

subsection \<open>The binding at a notification (C7, C10)\<close>

lemma dropNativeDBusConnection_facts [simp]:
  "ref (dropNativeDBusConnection f) = None"
  "delivered (dropNativeDBusConnection f) = delivered f"
  "tunnel (dropNativeDBusConnection f) = tunnel f"
  "posted (dropNativeDBusConnection f) = posted f"
  "ref_name (dropNativeDBusConnection f) = ref_name f"
  "bus_calls (dropNativeDBusConnection f) =
     bus_calls f @ (if ref f = None then [] else [DisconnectFromBus (ref_name f)])"
  by (simp_all add: dropNativeDBusConnection_def split: option.splits)

lemma emit_connection_facts [simp]:
  "ref (emit_connection s f) = ref f"
  "delivered (emit_connection s f) = delivered f @ [(s, ref f \<noteq> None)]"
  "tunnel (emit_connection s f) = tunnel f"
  "posted (emit_connection s f) = posted f"
  "bus_calls (emit_connection s f) = bus_calls f"
  by (simp_all add: emit_connection_def isConnectionOpened_def)

lemma invoke_queued_facts [simp]:
  "ref (invoke_queued c f) = ref f"
  "delivered (invoke_queued c f) = delivered f"
  "queue (tunnel (invoke_queued c f)) = queue (tunnel f) @ [c]"
  "posted (invoke_queued c f) = posted f"
  "bus_calls (invoke_queued c f) = bus_calls f"
  by (simp_all add: invoke_queued_def)

text \<open>
  C7 (amended). \<open>connectionClosed()\<close> is emitted after the binding was dropped. When the
  tunnel reports \<open>channelOpened(true, port)\<close> and the bus connection made for the local
  address is not connected, the binding is dropped, \<open>abortChannel\<close> is queued for the tunnel,
  and an error and \<open>connectionOpened(false)\<close> are emitted, both with no binding left. When
  the tunnel reports \<open>channelOpened(false)\<close>, \<open>connectionOpened(false)\<close> is emitted and the
  binding is left as it was: absent if it was absent, still there otherwise.
\<close>

theorem C7_binding_at_notification:
  "delivered (processTunnelChannelClosed True f) = delivered f @ [(ConnectionClosed, False)] \<and>
   ref (processTunnelChannelClosed True f) = None \<and>
   (\<not> isConnected bus \<longrightarrow>
      delivered (processTunnelChannelOpened True local_port bus f) =
        delivered f @
        [(ConnectionError (''D-Bus connection failed with '' @
            formatDBusErrorDetails (lastError bus)), False),
         (ConnectionOpened False, False)] \<and>
      ref (processTunnelChannelOpened True local_port bus f) = None \<and>
      queue (tunnel (processTunnelChannelOpened True local_port bus f)) =
        queue (tunnel f) @ [QueuedAbortChannel] \<and>
      bus_calls (processTunnelChannelOpened True local_port bus f) =
        bus_calls f @
        [ConnectToBus (''tcp:host=localhost,port='' @ decimal (unat local_port)) (ref_name f),
         DisconnectFromBus (ref_name f)]) \<and>
   delivered (processTunnelChannelOpened False local_port bus f) =
     delivered f @ [(ConnectionOpened False, ref f \<noteq> None)] \<and>
   ref (processTunnelChannelOpened False local_port bus f) = ref f"
  by (simp add: processTunnelChannelClosed_def processTunnelChannelOpened_def Let_def)

theorem C7_witness:
  "\<not> isConnected failed_bus \<and>
   delivered (processTunnelChannelOpened True 40000 failed_bus
                (RemoteDBusConnection_new ''myconnection'')) =
     [(ConnectionError (''D-Bus connection failed with error:'' @ [CHR 0x0A] @
         ''Name: org.freedesktop.DBus.Error.NoServer'' @ [CHR 0x0A] @
         ''Message: Connection refused''), False),
      (ConnectionOpened False, False)] \<and>
   ref (processTunnelChannelOpened True 40000 failed_bus
          (RemoteDBusConnection_new ''myconnection'')) = None"
  using C7_binding_at_notification
    [of "RemoteDBusConnection_new ''myconnection''" failed_bus 40000]
  by (simp add: failed_bus_def RemoteDBusConnection_new_def formatDBusErrorDetails_def)


text \<open>
  A second \<open>openConnection\<close> issued before \<open>channelOpened(true)\<close> has been delivered: the
  tunnel answers the second \<open>openChannel\<close> with \<open>channelOpened(false)\<close>, and
  \<open>connectionOpened(false)\<close> is emitted while the binding exists.
\<close>

theorem C7_counterexample:
  "delivered racing_connection =
     [(ConnectionOpened True, True), (ConnectionOpened False, True)] \<and>
   ref racing_connection = Some connected_bus \<and>
   take 2 (emitted (tunnel racing_connection)) = [ChannelOpened True 40000, ChannelOpened False 0]"
  by (simp add: racing_connection_def on_tunnel_def openConnection_def isConnectionOpened_def
        invoke_queued_def RemoteDBusConnection_new_def configured_tunnel_def
        RemoteDBusConnectionTunnel_new_def fresh_socket_def sample_env_def connected_bus_def
        deliver_def processTunnelChannelOpened_def emit_connection_def
        prim_defs slot_defs Let_def)

theorem channelOpened_false_keeps_binding:
  "delivered (processTunnelChannelOpened False 0 failed_bus opened_connection) =
     [(ConnectionOpened True, True), (ConnectionOpened False, True)] \<and>
   ref (processTunnelChannelOpened False 0 failed_bus opened_connection) \<noteq> None"
  by (simp add: opened_connection_def processTunnelChannelOpened_def connected_bus_def
        RemoteDBusConnection_new_def Let_def)

text \<open>
  C10. For \<open>channelClosed(false)\<close> the slot returns the object unchanged: no signal, same
  binding. That is what an idle tunnel answers to \<open>closeChannel\<close>. \<open>connectionClosed()\<close>
  is emitted for \<open>channelClosed(true)\<close>, and for no other signal of the tunnel.
\<close>

theorem C10_processTunnelChannelClosed:
  "processTunnelChannelClosed False f = f \<and>
   deliver (ChannelClosed False) bus f = f \<and>
   (remote_state t = UnconnectedState \<longrightarrow>
      emitted (closeChannel completes t) = emitted t @ [ChannelClosed False]) \<and>
   delivered (processTunnelChannelClosed True f) = delivered f @ [(ConnectionClosed, False)] \<and>
   (s \<noteq> ChannelClosed True \<longrightarrow>
      filter is_closed (delivered (deliver s bus f)) = filter is_closed (delivered f))"
proof (intro conjI impI)
  show "processTunnelChannelClosed False f = f"
    by (simp add: processTunnelChannelClosed_def)
  show "deliver (ChannelClosed False) bus f = f"
    by (simp add: deliver_def processTunnelChannelClosed_def)
  show "delivered (processTunnelChannelClosed True f) = delivered f @ [(ConnectionClosed, False)]"
    by (simp add: processTunnelChannelClosed_def)
next
  assume "remote_state t = UnconnectedState"
  then show "emitted (closeChannel completes t) = emitted t @ [ChannelClosed False]"
    by (simp add: closeChannel_def)
next
  assume "s \<noteq> ChannelClosed True"
  then show "filter is_closed (delivered (deliver s bus f)) = filter is_closed (delivered f)"
    by (cases s)
       (simp_all add: deliver_def processTunnelChannelClosed_def processTunnelChannelOpened_def
          is_closed_def Let_def)
qed

theorem C10_witness:
  "remote_state configured_tunnel = UnconnectedState \<and>
   emitted (closeChannel False configured_tunnel) = [ChannelClosed False] \<and>
   deliver (ChannelClosed False) connected_bus opened_connection = opened_connection \<and>
   ChannelOpened False 0 \<noteq> ChannelClosed True \<and>
   filter is_closed (delivered (deliver (ChannelOpened False 0) connected_bus opened_connection)) =
     filter is_closed (delivered opened_connection)"
proof -
  have a: "remote_state configured_tunnel = UnconnectedState" "emitted configured_tunnel = []"
    by (simp_all add: configured_tunnel_def RemoteDBusConnectionTunnel_new_def remote_state_def
          fresh_socket_def)
  show ?thesis
    using a C10_processTunnelChannelClosed
      [of opened_connection connected_bus configured_tunnel False "ChannelOpened False 0"]
    by simp
qed

subsection \<open>Wrapped operations (C6)\<close>

lemma guard_fields:
  "guard_of t' = guard_of t \<Longrightarrow>
     connection_timeout_ms t' = connection_timeout_ms t \<and>
     wrapped_operation_timeout_ms t' = wrapped_operation_timeout_ms t \<and>
     wrapped_operation_semaphore t' = wrapped_operation_semaphore t \<and>
     wrapped_operation_timed_out t' = wrapped_operation_timed_out t \<and>
     wrapped_operation_timer t' = wrapped_operation_timer t"
  by (simp add: guard_of_def)

lemma abortChannel_fields [simp]:
  "connection_timeout_ms (abortChannel t) = connection_timeout_ms t"
  "wrapped_operation_timeout_ms (abortChannel t) = wrapped_operation_timeout_ms t"
  "wrapped_operation_semaphore (abortChannel t) = wrapped_operation_semaphore t"
  "wrapped_operation_timed_out (abortChannel t) = wrapped_operation_timed_out t"
  "wrapped_operation_timer (abortChannel t) = wrapped_operation_timer t"
  using guard_fields [OF abortChannel_guard(1) [of t]] by simp_all


lemma syncStartWrappedOperation_busy:
  "wrapped_operation_semaphore t = 0 \<Longrightarrow>
   syncStartWrappedOperation t = Parked (t\<lparr>wrapped_operation_timed_out := False\<rparr>)"
  by (simp add: syncStartWrappedOperation_def syncStartWrappedOperation_acquire_def
        semaphore_acquire_def)

lemma asyncStopWrappedOperation_eq:
  "asyncStopWrappedOperation t =
     t\<lparr>queue := queue t @
         (if wrapped_operation_timeout_ms t \<noteq> - 1 then [QueuedStopWrappedOperationTimer] else []),
       wrapped_operation_semaphore := wrapped_operation_semaphore t + 1\<rparr>"
  by (simp add: asyncStopWrappedOperation_def semaphore_release_def)



subsection \<open>The relay (C9)\<close>

lemma drained_socket: "readable s = [] \<Longrightarrow> s\<lparr>readable := []\<rparr> = s"
  by (cases s) simp

lemma same_local_socket: "local_socket t = x \<Longrightarrow> t\<lparr>local_socket := x\<rparr> = t"
  by (cases t) simp

lemma transfer_nothing:
  "socket_of src t = Some s \<Longrightarrow> readable s = [] \<Longrightarrow>
   transferDataFromSocketToSocket written src dst t = Inr (called (SocketReadAll src) t)"
  by (cases src)
     (auto simp: transferDataFromSocketToSocket_def socket_of_def put_socket_def Let_def
        drained_socket same_local_socket)

lemma transfer_something:
  "src \<noteq> dst \<Longrightarrow> socket_of src t = Some s \<Longrightarrow> socket_of dst t = Some d \<Longrightarrow>
   readable s \<noteq> [] \<Longrightarrow>
   transferDataFromSocketToSocket written src dst t =
     (if written < 0 \<or> written = int (length (readable s))
      then Inr (called (SocketWrite dst (readable s))
             (put_socket dst (d\<lparr>outgoing := outgoing d @ take (nat written) (readable s)\<rparr>)
                (called (SocketReadAll src) (put_socket src (s\<lparr>readable := []\<rparr>) t))))
      else Inl AssertionFailed)"
  by (cases src; cases dst)
     (auto simp: transferDataFromSocketToSocket_def socket_of_def put_socket_def called_def Let_def)

lemma socket_facts [simp]:
  "socket_of e (called k t) = socket_of e t"
  "calls (put_socket e s t) = calls t"
  "socket_of e (put_socket e s t) = Some s"
  "e \<noteq> e' \<Longrightarrow> socket_of e' (put_socket e s t) = socket_of e' t"
  "calls (called k t) = calls t @ [k]"
  by (cases e; cases e'; simp add: socket_of_def put_socket_def called_def)+

lemma relay_step:
  assumes "local_socket t = Some s" "readable s = []" "readable (remote_socket t) = []"
  shows "\<exists>t' s'. handle (relay_event (e, bs)) t = Inr t' \<and>
           local_socket t' = Some s' \<and> readable s' = [] \<and> readable (remote_socket t') = [] \<and>
           outgoing (remote_socket t') =
             outgoing (remote_socket t) @ (if e = Local then bs else []) \<and>
           outgoing s' = outgoing s @ (if e = Remote then bs else [])"
  using assms
  by (cases e; cases "bs = []")
     (auto simp: relay_event_def handle_def arrive_def socket_of_def put_socket_def called_def
        processLocalSocketReadyRead_def processRemoteSocketReadyRead_def
        transferDataFromSocketToSocket_def Let_def)

lemma relay_run:
  "local_socket t = Some s \<Longrightarrow> readable s = [] \<Longrightarrow> readable (remote_socket t) = [] \<Longrightarrow>
   \<exists>t' s'. run (map relay_event xs) t = Inr t' \<and>
      local_socket t' = Some s' \<and> readable s' = [] \<and> readable (remote_socket t') = [] \<and>
      outgoing (remote_socket t') = outgoing (remote_socket t) @ chunks_from Local xs \<and>
      outgoing s' = outgoing s @ chunks_from Remote xs"
proof (induction xs arbitrary: t s)
  case Nil
  then show ?case by (simp add: chunks_from_def)
next
  case (Cons x xs)
  obtain e bs where x: "x = (e, bs)" by (cases x)
  obtain t1 s1 where st: "handle (relay_event (e, bs)) t = Inr t1"
    "local_socket t1 = Some s1" "readable s1 = []" "readable (remote_socket t1) = []"
    "outgoing (remote_socket t1) = outgoing (remote_socket t) @ (if e = Local then bs else [])"
    "outgoing s1 = outgoing s @ (if e = Remote then bs else [])"
    using relay_step [OF Cons.prems, of e bs] by blast
  obtain t' s' where r: "run (map relay_event xs) t1 = Inr t'"
    "local_socket t' = Some s'" "readable s' = []" "readable (remote_socket t') = []"
    "outgoing (remote_socket t') = outgoing (remote_socket t1) @ chunks_from Local xs"
    "outgoing s' = outgoing s1 @ chunks_from Remote xs"
    using Cons.IH [OF st(2) st(3) st(4)] by blast
  show ?case
    using st r by (cases e) (simp_all add: x chunks_from_def)
qed

text \<open>
  C9. A readiness event of the remote socket while there is no peer changes nothing. A transfer
  reads everything the source socket has; with nothing to read it calls no \<^verbatim>\<open>write\<close>;
  otherwise it calls \<^verbatim>\<open>write\<close> on the other socket once, with exactly the bytes read, and
  when the socket takes them all they are appended, unchanged and in order, to what that socket
  has been given. Over any sequence of chunks arriving on either side, each written whole, each
  side has been given the concatenation of the chunks that arrived on the other side, in order
  of arrival.
\<close>

theorem C9_relay:
  "(local_socket t = None \<longrightarrow> processRemoteSocketReadyRead written t = Inr t) \<and>
   (socket_of src t = Some s \<and> readable s = [] \<longrightarrow>
      (\<exists>t'. transferDataFromSocketToSocket written src dst t = Inr t' \<and>
         calls t' = calls t @ [SocketReadAll src] \<and>
         remote_socket t' = remote_socket t \<and> local_socket t' = local_socket t)) \<and>
   (src \<noteq> dst \<and> socket_of src t = Some s \<and> socket_of dst t = Some d \<and> readable s \<noteq> [] \<longrightarrow>
      (\<forall>t'. transferDataFromSocketToSocket written src dst t = Inr t' \<longrightarrow>
         calls t' = calls t @ [SocketReadAll src, SocketWrite dst (readable s)] \<and>
         socket_of src t' = Some (s\<lparr>readable := []\<rparr>)) \<and>
      (written = int (length (readable s)) \<longrightarrow>
         (\<exists>t'. transferDataFromSocketToSocket written src dst t = Inr t' \<and>
            socket_of dst t' = Some (d\<lparr>outgoing := outgoing d @ readable s\<rparr>)))) \<and>
   (local_socket t = Some p \<and> readable p = [] \<and> readable (remote_socket t) = [] \<longrightarrow>
      (\<exists>t' p'. run (map relay_event xs) t = Inr t' \<and> local_socket t' = Some p' \<and>
         outgoing (remote_socket t') = outgoing (remote_socket t) @ chunks_from Local xs \<and>
         outgoing p' = outgoing p @ chunks_from Remote xs))"
proof (intro conjI impI allI)
  assume "local_socket t = None"
  then show "processRemoteSocketReadyRead written t = Inr t"
    by (simp add: processRemoteSocketReadyRead_def)
next
  assume "socket_of src t = Some s \<and> readable s = []"
  then show "\<exists>t'. transferDataFromSocketToSocket written src dst t = Inr t' \<and>
         calls t' = calls t @ [SocketReadAll src] \<and>
         remote_socket t' = remote_socket t \<and> local_socket t' = local_socket t"
    by (simp add: transfer_nothing called_def)
next
  fix t'
  assume a: "src \<noteq> dst \<and> socket_of src t = Some s \<and> socket_of dst t = Some d \<and> readable s \<noteq> []"
    and r: "transferDataFromSocketToSocket written src dst t = Inr t'"
  show "calls t' = calls t @ [SocketReadAll src, SocketWrite dst (readable s)]"
    using a r by (auto simp: transfer_something split: if_splits)
  show "socket_of src t' = Some (s\<lparr>readable := []\<rparr>)"
    using a r by (auto simp: transfer_something split: if_splits)
next
  assume a: "src \<noteq> dst \<and> socket_of src t = Some s \<and> socket_of dst t = Some d \<and> readable s \<noteq> []"
    and w: "written = int (length (readable s))"
  show "\<exists>t'. transferDataFromSocketToSocket written src dst t = Inr t' \<and>
            socket_of dst t' = Some (d\<lparr>outgoing := outgoing d @ readable s\<rparr>)"
    using a w by (simp add: transfer_something)
next
  assume "local_socket t = Some p \<and> readable p = [] \<and> readable (remote_socket t) = []"
  then show "\<exists>t' p'. run (map relay_event xs) t = Inr t' \<and> local_socket t' = Some p' \<and>
         outgoing (remote_socket t') = outgoing (remote_socket t) @ chunks_from Local xs \<and>
         outgoing p' = outgoing p @ chunks_from Remote xs"
    using relay_run [of t p xs] by blast
qed

theorem C9_witness:
  "local_socket configured_tunnel = None \<and>
   processRemoteSocketReadyRead 0 configured_tunnel = Inr configured_tunnel \<and>
   socket_of Remote connected_tunnel = Some (remote_socket connected_tunnel) \<and>
   readable (remote_socket connected_tunnel) = [] \<and>
   (\<exists>t'. transferDataFromSocketToSocket 0 Remote Local connected_tunnel = Inr t' \<and>
      local_socket t' = local_socket connected_tunnel) \<and>
   Local \<noteq> Remote \<and>
   socket_of Local (arrive Local [1, 2, 3] connected_tunnel) =
     Some (fresh_socket\<lparr>sock_state := ConnectedState, readable := [1, 2, 3]\<rparr>) \<and>
   (\<exists>t'. transferDataFromSocketToSocket 3 Local Remote (arrive Local [1, 2, 3] connected_tunnel) =
      Inr t' \<and>
      outgoing (remote_socket t') = [1, 2, 3] \<and>
      calls t' = calls connected_tunnel @ [SocketReadAll Local, SocketWrite Remote [1, 2, 3]]) \<and>
   (\<exists>t' p'. run (map relay_event [(Local, [1, 2]), (Remote, [9]), (Local, [3])])
              connected_tunnel = Inr t' \<and>
      local_socket t' = Some p' \<and> outgoing (remote_socket t') = [1, 2, 3] \<and> outgoing p' = [9])"
proof -
  let ?t = "arrive Local [1, 2, 3] connected_tunnel"
  let ?s = "fresh_socket\<lparr>sock_state := ConnectedState, readable := [1, 2, 3]\<rparr>"
  have a: "local_socket configured_tunnel = None"
    by (simp add: configured_tunnel_def RemoteDBusConnectionTunnel_new_def)
  have b: "socket_of Remote connected_tunnel = Some (remote_socket connected_tunnel)"
    "readable (remote_socket connected_tunnel) = []"
    "outgoing (remote_socket connected_tunnel) = []"
    "local_socket connected_tunnel = Some (fresh_socket\<lparr>sock_state := ConnectedState\<rparr>)"
    "readable (fresh_socket\<lparr>sock_state := ConnectedState\<rparr>) = []"
    "outgoing (fresh_socket\<lparr>sock_state := ConnectedState\<rparr>) = []"
    by (simp_all add: connected_tunnel_eq socket_of_def fresh_socket_def)
  have c: "socket_of Local ?t = Some ?s" "socket_of Remote ?t = Some (remote_socket connected_tunnel)"
    "readable ?s = [1, 2, 3]" "calls ?t = calls connected_tunnel"
    by (simp_all add: arrive_def socket_of_def put_socket_def connected_tunnel_eq fresh_socket_def)
  have d: "chunks_from Local [(Local, [1, 2]), (Remote, [9]), (Local, [3::byte])] = [1, 2, 3]"
    "chunks_from Remote [(Local, [1, 2]), (Remote, [9]), (Local, [3::byte])] = [9]"
    by (simp_all add: chunks_from_def)
  have w1: "\<exists>t'. transferDataFromSocketToSocket 0 Remote Local connected_tunnel = Inr t' \<and>
      local_socket t' = local_socket connected_tunnel"
    using b C9_relay [where t = connected_tunnel and src = Remote and dst = Local
        and s = "remote_socket connected_tunnel" and written = 0
        and d = "remote_socket connected_tunnel" and p = "remote_socket connected_tunnel"
        and xs = "[]"]
    by blast
  have w2: "\<exists>t'. transferDataFromSocketToSocket 3 Local Remote ?t = Inr t' \<and>
      outgoing (remote_socket t') = [1, 2, 3] \<and>
      calls t' = calls connected_tunnel @ [SocketReadAll Local, SocketWrite Remote [1, 2, 3]]"
  proof -
    have h: "Local \<noteq> Remote \<and> socket_of Local ?t = Some ?s \<and>
        socket_of Remote ?t = Some (remote_socket connected_tunnel) \<and> readable ?s \<noteq> []"
      using c by simp
    from C9_relay [where t = ?t and src = Local and dst = Remote and s = ?s
        and d = "remote_socket connected_tunnel" and written = 3
        and p = "remote_socket connected_tunnel" and xs = "[]"]
    have all: "\<forall>t'. transferDataFromSocketToSocket 3 Local Remote ?t = Inr t' \<longrightarrow>
         calls t' = calls ?t @ [SocketReadAll Local, SocketWrite Remote (readable ?s)] \<and>
         socket_of Local t' = Some (?s\<lparr>readable := []\<rparr>)"
      and ex: "\<exists>t'. transferDataFromSocketToSocket 3 Local Remote ?t = Inr t' \<and>
            socket_of Remote t' =
              Some ((remote_socket connected_tunnel)
                \<lparr>outgoing := outgoing (remote_socket connected_tunnel) @ readable ?s\<rparr>)"
      using h c(3) by auto
    from ex obtain t' where t': "transferDataFromSocketToSocket 3 Local Remote ?t = Inr t'"
      "socket_of Remote t' =
              Some ((remote_socket connected_tunnel)
                \<lparr>outgoing := outgoing (remote_socket connected_tunnel) @ readable ?s\<rparr>)"
      by blast
    have "outgoing (remote_socket t') = [1, 2, 3]"
      using t'(2) b(3) c(3) by (simp add: socket_of_def)
    moreover have "calls t' = calls connected_tunnel @ [SocketReadAll Local, SocketWrite Remote [1, 2, 3]]"
      using all t'(1) c by simp
    ultimately show ?thesis using t'(1) by blast
  qed
  have w3: "\<exists>t' p'. run (map relay_event [(Local, [1, 2]), (Remote, [9]), (Local, [3])])
              connected_tunnel = Inr t' \<and>
      local_socket t' = Some p' \<and> outgoing (remote_socket t') = [1, 2, 3] \<and> outgoing p' = [9]"
    using b d C9_relay [where t = connected_tunnel
        and p = "fresh_socket\<lparr>sock_state := ConnectedState\<rparr>"
        and xs = "[(Local, [1, 2]), (Remote, [9]), (Local, [3])]"
        and src = Remote and dst = Local and written = 0
        and s = "remote_socket connected_tunnel" and d = "remote_socket connected_tunnel"]
    by simp
  have w0: "processRemoteSocketReadyRead 0 configured_tunnel = Inr configured_tunnel"
    using a C9_relay [where t = configured_tunnel and written = 0
        and src = Remote and dst = Local and s = "remote_socket connected_tunnel"
        and d = "remote_socket connected_tunnel" and p = "remote_socket connected_tunnel"
        and xs = "[]"]
    by blast
  show ?thesis
    using a b(1,2) c(1) w0 w1 w2 w3 by simp
qed

subsection \<open>What every event keeps\<close>

lemma wtimer_ok_guard: "guard_of t' = guard_of t \<Longrightarrow> wtimer_ok t' = wtimer_ok t"
  by (simp add: guard_of_def wtimer_ok_def)

lemma kept_by_guard:
  assumes "guard_of t' = guard_of t" "ctimer_ok t \<longrightarrow> ctimer_ok t'"
  shows "connection_timeout_ms t' = connection_timeout_ms t \<and>
     wrapped_operation_timeout_ms t' = wrapped_operation_timeout_ms t \<and>
     (ctimer_ok t \<longrightarrow> ctimer_ok t') \<and> (wtimer_ok t \<longrightarrow> wtimer_ok t') \<and>
     (wrapped_operation_timed_out t \<longrightarrow> wrapped_operation_timed_out t')"
  using assms guard_fields [OF assms(1)] wtimer_ok_guard [OF assms(1)] by simp

lemma env_guard [simp]:
  "guard_of (set_remote st t) = guard_of t"
  "ctimer_ok (set_remote st t) = ctimer_ok t"
  "guard_of (arrive e bs t) = guard_of t"
  "ctimer_ok (arrive e bs t) = ctimer_ok t"
  by (simp_all add: set_remote_def arrive_def split: option.splits)

lemma run_queued_kept:
  "connection_timeout_ms (run_queued b d c t) = connection_timeout_ms t \<and>
   wrapped_operation_timeout_ms (run_queued b d c t) = wrapped_operation_timeout_ms t \<and>
   (ctimer_ok t \<longrightarrow> ctimer_ok (run_queued b d c t)) \<and>
   (wtimer_ok t \<longrightarrow> wtimer_ok (run_queued b d c t)) \<and>
   (wrapped_operation_timed_out t \<longrightarrow> wrapped_operation_timed_out (run_queued b d c t))"
proof (cases "queue t")
  case Nil
  then show ?thesis by (simp add: run_queued_def)
next
  case (Cons k ks)
  let ?t1 = "t\<lparr>queue := ks\<rparr>"
  have t1: "guard_of ?t1 = guard_of t" "ctimer_ok ?t1 = ctimer_ok t" by simp_all
  show ?thesis
  proof (cases k)
    case (QueuedOpenChannel h p pr)
    then have "run_queued b d c t = openChannel h p pr b d ?t1"
      by (simp add: run_queued_def Cons)
    then show ?thesis
      using kept_by_guard [of "openChannel h p pr b d ?t1" t] by simp
  next
    case QueuedCloseChannel
    then have "run_queued b d c t = closeChannel c ?t1"
      by (simp add: run_queued_def Cons)
    then show ?thesis
      using kept_by_guard [of "closeChannel c ?t1" t] by simp
  next
    case QueuedAbortChannel
    then have "run_queued b d c t = abortChannel ?t1"
      by (simp add: run_queued_def Cons)
    then show ?thesis
      using kept_by_guard [of "abortChannel ?t1" t] by simp
  next
    case QueuedStopWrappedOperationTimer
    then have "run_queued b d c t = t\<lparr>queue := ks, wrapped_operation_timer := None\<rparr>"
      by (simp add: run_queued_def Cons)
    then show ?thesis
      by (simp add: ctimer_ok_def wtimer_ok_def)
  qed
qed

lemma handle_kept_slots:
  assumes h: "handle ev t = Inr t'"
    and nc: "\<forall>v. ev \<noteq> SetConnectionTimeout v" "\<forall>v. ev \<noteq> SetWrappedOperationTimeout v"
  shows "connection_timeout_ms t' = connection_timeout_ms t \<and>
     wrapped_operation_timeout_ms t' = wrapped_operation_timeout_ms t \<and>
     (ctimer_ok t \<longrightarrow> ctimer_ok t') \<and> (wtimer_ok t \<longrightarrow> wtimer_ok t') \<and>
     (ev \<noteq> InvokeSyncStartWrappedOperation \<longrightarrow>
        wrapped_operation_timed_out t \<longrightarrow> wrapped_operation_timed_out t')"
proof (cases ev)
  case (Posted c)
  then have "t' = t\<lparr>queue := queue t @ [c]\<rparr>" using h by (auto simp: handle_def)
  then show ?thesis using kept_by_guard [of t' t] by simp
next
  case (QueuedCallRuns b d c)
  then have "t' = run_queued b d c t" using h by (auto simp: handle_def)
  then show ?thesis using run_queued_kept [of b d c t] by simp
next
  case (InvokeSetRemoteSocketOption opt v)
  then have "t' = setRemoteSocketOption opt v t" using h by (auto simp: handle_def)
  then show ?thesis using kept_by_guard [of t' t] by simp
next
  case (InvokeApplyRemoteSocketKeepaliveParams e)
  then have "t' = applyRemoteSocketKeepaliveParams e t" using h by (auto simp: handle_def)
  then show ?thesis using kept_by_guard [of t' t] by simp
next
  case InvokeSyncStartWrappedOperation
  then have "t' = state_of (syncStartWrappedOperation t)" using h by (auto simp: handle_def)
  then show ?thesis
    using InvokeSyncStartWrappedOperation
    by (auto simp: syncStartWrappedOperation_def syncStartWrappedOperation_acquire_def
          semaphore_acquire_def state_of_def ctimer_ok_def wtimer_ok_def)
next
  case WokenSyncStartWrappedOperation
  then have "t' = state_of (syncStartWrappedOperation_acquire t)"
    using h by (auto simp: handle_def)
  then show ?thesis
    by (auto simp: syncStartWrappedOperation_acquire_def
          semaphore_acquire_def state_of_def ctimer_ok_def wtimer_ok_def)
next
  case InvokeAsyncStopWrappedOperation
  then have "t' = asyncStopWrappedOperation t" using h by (auto simp: handle_def)
  then show ?thesis
    by (simp add: asyncStopWrappedOperation_eq ctimer_ok_def wtimer_ok_def)
next
  case (RemoteSocketConnected e)
  then have "processRemoteSocketConnected e (set_remote ConnectedState t) = Inr t'"
    using h by (auto simp: handle_def)
  from processRemoteSocketConnected_guard [OF this]
  show ?thesis using kept_by_guard [of t' t] by simp
next
  case RemoteSocketDisconnected
  then have "t' = set_remote UnconnectedState t \<or>
      t' = processRemoteSocketDisconnected (set_remote UnconnectedState t)"
    using h by (auto simp: handle_def split: if_splits)
  then show ?thesis using kept_by_guard [of t' t] by auto
next
  case (RemoteSocketError st msg)
  then have "processRemoteSocketError
      (t\<lparr>remote_socket := (remote_socket t)\<lparr>sock_state := st, errorString := msg\<rparr>\<rparr>) = Inr t'"
    using h by (auto simp: handle_def)
  from processRemoteSocketError_guard [OF this]
  show ?thesis using kept_by_guard [of t' t] by simp
next
  case (RemoteSocketReadyRead bs w)
  then have "processRemoteSocketReadyRead w (arrive Remote bs t) = Inr t'"
    using h by (auto simp: handle_def)
  from processReadyRead_guard(1) [OF this]
  show ?thesis using kept_by_guard [of t' t] by simp
next
  case (LocalSocketReadyRead bs w)
  then have "processLocalSocketReadyRead w (arrive Local bs t) = Inr t'"
    using h by (auto simp: handle_def)
  from processReadyRead_guard(2) [OF this]
  show ?thesis using kept_by_guard [of t' t] by simp
next
  case LocalServerNewConnection
  then have "processLocalServerNewConnection
      (t\<lparr>local_server := (local_server t)
           \<lparr>pendingConnections := pendingConnections (local_server t) @
              [fresh_socket\<lparr>sock_state := ConnectedState\<rparr>]\<rparr>\<rparr>) = Inr t'"
    using h by (auto simp: handle_def)
  from processLocalServerNewConnection_guard [OF this]
  show ?thesis using kept_by_guard [of t' t] by simp
next
  case ConnectionTimerTimeout
  then have "t' = t \<or> processConnectionTimeout (t\<lparr>connection_timer := None\<rparr>) = Inr t'"
    using h by (auto simp: handle_def split: if_splits)
  then show ?thesis
  proof
    assume "t' = t" then show ?thesis by simp
  next
    assume "processConnectionTimeout (t\<lparr>connection_timer := None\<rparr>) = Inr t'"
    from processConnectionTimeout_guard [OF this]
    show ?thesis using kept_by_guard [of t' t] by simp
  qed
next
  case WrappedOperationTimerTimeout
  let ?u = "abortChannel (t\<lparr>wrapped_operation_timer := None, wrapped_operation_timed_out := True\<rparr>)"
  have u: "ctimer_ok t \<longrightarrow> ctimer_ok ?u"
    using abortChannel_guard(2)
      [of "t\<lparr>wrapped_operation_timer := None, wrapped_operation_timed_out := True\<rparr>"]
    by (simp add: ctimer_ok_def)
  have "t' = t \<or>
      t' = state_of (processWrappedOperationTimeout (t\<lparr>wrapped_operation_timer := None\<rparr>))"
    using WrappedOperationTimerTimeout h by (auto simp: handle_def split: if_splits)
  then show ?thesis
  proof
    assume "t' = t" then show ?thesis by simp
  next
    assume "t' = state_of (processWrappedOperationTimeout (t\<lparr>wrapped_operation_timer := None\<rparr>))"
    then show ?thesis
      using u
      by (auto simp: processWrappedOperationTimeout_def processWrappedOperationTimeout_acquire_def
            semaphore_acquire_def semaphore_release_def state_of_def Let_def emit_def
            ctimer_ok_def wtimer_ok_def)
  qed
next
  case WokenWrappedOperationTimeout
  then have "t' = state_of (processWrappedOperationTimeout_acquire t)"
    using h by (auto simp: handle_def)
  then show ?thesis
    by (auto simp: processWrappedOperationTimeout_acquire_def
          semaphore_acquire_def semaphore_release_def state_of_def emit_def
          ctimer_ok_def wtimer_ok_def)
next
  case (SetConnectionTimeout v)
  then show ?thesis using nc by simp
next
  case (SetWrappedOperationTimeout v)
  then show ?thesis using nc by simp
qed

lemma handle_kept:
  assumes h: "handle ev t = Inr t'"
  shows "(ev \<noteq> SetConnectionTimeout (- 1) \<longrightarrow> ctimer_ok t \<longrightarrow> ctimer_ok t') \<and>
     (ev \<noteq> SetWrappedOperationTimeout (- 1) \<longrightarrow> wtimer_ok t \<longrightarrow> wtimer_ok t') \<and>
     (ev \<noteq> InvokeSyncStartWrappedOperation \<longrightarrow>
        wrapped_operation_timed_out t \<longrightarrow> wrapped_operation_timed_out t')"
proof (cases ev)
  case (SetConnectionTimeout v)
  then have "t' = t\<lparr>connection_timeout_ms := v\<rparr>" using h by (auto simp: handle_def)
  then show ?thesis
    using SetConnectionTimeout by (auto simp: ctimer_ok_def wtimer_ok_def)
next
  case (SetWrappedOperationTimeout v)
  then have "t' = t\<lparr>wrapped_operation_timeout_ms := v\<rparr>" using h by (auto simp: handle_def)
  then show ?thesis
    using SetWrappedOperationTimeout by (auto simp: ctimer_ok_def wtimer_ok_def)
qed (use handle_kept_slots [OF h] in simp_all)

lemma run_kept:
  "run evs t = Inr t' \<Longrightarrow>
     (SetConnectionTimeout (- 1) \<notin> set evs \<longrightarrow> ctimer_ok t \<longrightarrow> ctimer_ok t') \<and>
     (SetWrappedOperationTimeout (- 1) \<notin> set evs \<longrightarrow> wtimer_ok t \<longrightarrow> wtimer_ok t') \<and>
     (InvokeSyncStartWrappedOperation \<notin> set evs \<longrightarrow>
        wrapped_operation_timed_out t \<longrightarrow> wrapped_operation_timed_out t')"
proof (induction evs arbitrary: t)
  case Nil
  then show ?case by simp
next
  case (Cons ev evs)
  then obtain t1 where s: "handle ev t = Inr t1" "run evs t1 = Inr t'"
    by (auto split: sum.splits)
  show ?case
    using handle_kept [OF s(1)] Cons.IH [OF s(2)] by auto
qed

subsection \<open>The operation timeout (C1)\<close>

lemma abortChannel_connected:
  assumes "remote_state t = ConnectedState"
  shows "remote_state (abortChannel t) = UnconnectedState"
    "\<not> isListening (local_server (abortChannel t))"
    "local_socket (abortChannel t) = None"
    "emitted (abortChannel t) = emitted t"
  using assms by (simp_all add: abortChannel_def hard_teardown)

lemma flag_update_facts [simp]:
  "remote_state (t\<lparr>wrapped_operation_timed_out := b\<rparr>) = remote_state t"
  "remote_state (t\<lparr>wrapped_operation_semaphore := n\<rparr>) = remote_state t"
  "remote_state (t\<lparr>queue := q\<rparr>) = remote_state t"
  by (simp_all add: remote_state_def)

text \<open>
  C1. The slot of the operation timer sets the flag in every case. If the remote socket is not
  connected it does nothing else. If it is connected, the slot aborts the channel and acquires
  the semaphore: while a wrapped operation holds the token the thread is parked there, with the
  channel aborted and nothing emitted yet, and once \<open>asyncStopWrappedOperation\<close> has released
  the token it takes it, gives it back and emits exactly \<open>channelClosed(true)\<close>; with the
  token free it does all this at once. \<open>syncStartWrappedOperation\<close> clears the flag before it
  acquires, also when it has to wait. Between two calls of \<open>syncStartWrappedOperation\<close> no
  event clears the flag.
\<close>

theorem C1_processWrappedOperationTimeout:
  "wrapped_operation_timed_out (state_of (processWrappedOperationTimeout t)) \<and>
   (remote_state t \<noteq> ConnectedState \<longrightarrow>
      processWrappedOperationTimeout t = Returned (t\<lparr>wrapped_operation_timed_out := True\<rparr>)) \<and>
   (remote_state t = ConnectedState \<and> wrapped_operation_semaphore t = 0 \<longrightarrow>
      (\<exists>w. processWrappedOperationTimeout t = Parked w \<and>
         w = abortChannel (t\<lparr>wrapped_operation_timed_out := True\<rparr>) \<and>
         emitted w = emitted t \<and> remote_state w = UnconnectedState \<and>
         (\<exists>t'. processWrappedOperationTimeout_acquire (asyncStopWrappedOperation w) = Returned t' \<and>
            emitted t' = emitted t @ [ChannelClosed True] \<and>
            wrapped_operation_semaphore t' = 1 \<and>
            remote_state t' = UnconnectedState \<and>
            \<not> isListening (local_server t') \<and> local_socket t' = None \<and>
            isWrappedOperationTimedOut t'))) \<and>
   (remote_state t = ConnectedState \<and> 0 < wrapped_operation_semaphore t \<longrightarrow>
      (\<exists>t'. processWrappedOperationTimeout t = Returned t' \<and>
         emitted t' = emitted t @ [ChannelClosed True] \<and>
         wrapped_operation_semaphore t' = wrapped_operation_semaphore t \<and>
         remote_state t' = UnconnectedState \<and>
         \<not> isListening (local_server t') \<and> local_socket t' = None \<and>
         isWrappedOperationTimedOut t')) \<and>
   \<not> wrapped_operation_timed_out (state_of (syncStartWrappedOperation t)) \<and>
   (wrapped_operation_semaphore t = 0 \<longrightarrow>
      syncStartWrappedOperation t = Parked (t\<lparr>wrapped_operation_timed_out := False\<rparr>)) \<and>
   (wrapped_operation_timed_out t \<and> InvokeSyncStartWrappedOperation \<notin> set evs \<and>
    run evs t = Inr u \<longrightarrow> isWrappedOperationTimedOut u)"
proof (intro conjI impI)
  show "wrapped_operation_timed_out (state_of (processWrappedOperationTimeout t))"
    by (simp add: processWrappedOperationTimeout_def processWrappedOperationTimeout_acquire_def
          semaphore_acquire_def semaphore_release_def state_of_def Let_def emit_def)
next
  assume "remote_state t \<noteq> ConnectedState"
  then show "processWrappedOperationTimeout t =
      Returned (t\<lparr>wrapped_operation_timed_out := True\<rparr>)"
    by (simp add: processWrappedOperationTimeout_def Let_def)
next
  let ?w = "abortChannel (t\<lparr>wrapped_operation_timed_out := True\<rparr>)"
  assume a: "remote_state t = ConnectedState \<and> wrapped_operation_semaphore t = 0"
  then have c: "remote_state (t\<lparr>wrapped_operation_timed_out := True\<rparr>) = ConnectedState"
    by simp
  have p: "processWrappedOperationTimeout t = Parked ?w"
    using a
    by (simp add: processWrappedOperationTimeout_def processWrappedOperationTimeout_acquire_def
          semaphore_acquire_def Let_def)
  let ?t' = "emit (ChannelClosed True) (semaphore_release
        ((asyncStopWrappedOperation ?w)\<lparr>wrapped_operation_semaphore := 0\<rparr>))"
  have s0: "wrapped_operation_semaphore ?w = 0"
    using a by simp
  have r: "processWrappedOperationTimeout_acquire (asyncStopWrappedOperation ?w) = Returned ?t'"
    using s0
    by (simp add: processWrappedOperationTimeout_acquire_def semaphore_acquire_def
          asyncStopWrappedOperation_eq)
  have f: "emitted ?t' = emitted t @ [ChannelClosed True]"
    "wrapped_operation_semaphore ?t' = 1"
    "remote_state ?t' = UnconnectedState"
    "\<not> isListening (local_server ?t')" "local_socket ?t' = None"
    "isWrappedOperationTimedOut ?t'"
    using abortChannel_connected [OF c]
    by (simp_all add: asyncStopWrappedOperation_eq semaphore_release_def
          isWrappedOperationTimedOut_def remote_state_def emit_def)
  have "\<exists>t'. processWrappedOperationTimeout_acquire (asyncStopWrappedOperation ?w) = Returned t' \<and>
            emitted t' = emitted t @ [ChannelClosed True] \<and>
            wrapped_operation_semaphore t' = 1 \<and>
            remote_state t' = UnconnectedState \<and>
            \<not> isListening (local_server t') \<and> local_socket t' = None \<and>
            isWrappedOperationTimedOut t'"
    using r f by blast
  then show "\<exists>w. processWrappedOperationTimeout t = Parked w \<and>
         w = abortChannel (t\<lparr>wrapped_operation_timed_out := True\<rparr>) \<and>
         emitted w = emitted t \<and> remote_state w = UnconnectedState \<and>
         (\<exists>t'. processWrappedOperationTimeout_acquire (asyncStopWrappedOperation w) = Returned t' \<and>
            emitted t' = emitted t @ [ChannelClosed True] \<and>
            wrapped_operation_semaphore t' = 1 \<and>
            remote_state t' = UnconnectedState \<and>
            \<not> isListening (local_server t') \<and> local_socket t' = None \<and>
            isWrappedOperationTimedOut t')"
    using p abortChannel_connected [OF c] by simp
next
  assume a: "remote_state t = ConnectedState \<and> 0 < wrapped_operation_semaphore t"
  then have c: "remote_state (t\<lparr>wrapped_operation_timed_out := True\<rparr>) = ConnectedState"
    by simp
  show "\<exists>t'. processWrappedOperationTimeout t = Returned t' \<and>
         emitted t' = emitted t @ [ChannelClosed True] \<and>
         wrapped_operation_semaphore t' = wrapped_operation_semaphore t \<and>
         remote_state t' = UnconnectedState \<and>
         \<not> isListening (local_server t') \<and> local_socket t' = None \<and>
         isWrappedOperationTimedOut t'"
    using a abortChannel_connected [OF c]
    by (simp add: processWrappedOperationTimeout_def processWrappedOperationTimeout_acquire_def
          semaphore_acquire_def semaphore_release_def Let_def
          isWrappedOperationTimedOut_def remote_state_def emit_def)
next
  show "\<not> wrapped_operation_timed_out (state_of (syncStartWrappedOperation t))"
    by (simp add: syncStartWrappedOperation_def syncStartWrappedOperation_acquire_def
          semaphore_acquire_def state_of_def)
next
  assume "wrapped_operation_semaphore t = 0"
  then show "syncStartWrappedOperation t = Parked (t\<lparr>wrapped_operation_timed_out := False\<rparr>)"
    by (rule syncStartWrappedOperation_busy)
next
  assume "wrapped_operation_timed_out t \<and> InvokeSyncStartWrappedOperation \<notin> set evs \<and>
    run evs t = Inr u"
  then show "isWrappedOperationTimedOut u"
    using run_kept [of evs t u] by (simp add: isWrappedOperationTimedOut_def)
qed


theorem C1_witness:
  "remote_state in_flight_tunnel = ConnectedState \<and>
   wrapped_operation_semaphore in_flight_tunnel = 0 \<and>
   (\<exists>w. processWrappedOperationTimeout in_flight_tunnel = Parked w \<and>
      emitted w = [ChannelOpened True 40000] \<and>
      (\<exists>t'. processWrappedOperationTimeout_acquire (asyncStopWrappedOperation w) = Returned t' \<and>
         emitted t' = [ChannelOpened True 40000, ChannelClosed True] \<and>
         wrapped_operation_semaphore t' = 1 \<and> isWrappedOperationTimedOut t')) \<and>
   remote_state closing_tunnel \<noteq> ConnectedState \<and>
   processWrappedOperationTimeout closing_tunnel =
     Returned (closing_tunnel\<lparr>wrapped_operation_timed_out := True\<rparr>) \<and>
   0 < wrapped_operation_semaphore connected_tunnel \<and>
   (\<exists>t'. processWrappedOperationTimeout connected_tunnel = Returned t' \<and>
      emitted t' = [ChannelOpened True 40000, ChannelClosed True]) \<and>
   syncStartWrappedOperation in_flight_tunnel =
     Parked (in_flight_tunnel\<lparr>wrapped_operation_timed_out := False\<rparr>) \<and>
   wrapped_operation_timed_out (closing_tunnel\<lparr>wrapped_operation_timed_out := True\<rparr>) \<and>
   InvokeSyncStartWrappedOperation \<notin> set [InvokeAsyncStopWrappedOperation, ConnectionTimerTimeout] \<and>
   (\<exists>u. run [InvokeAsyncStopWrappedOperation, ConnectionTimerTimeout]
          (closing_tunnel\<lparr>wrapped_operation_timed_out := True\<rparr>) = Inr u \<and>
      isWrappedOperationTimedOut u)"
proof -
  let ?c = "closing_tunnel\<lparr>wrapped_operation_timed_out := True\<rparr>"
  have a: "remote_state in_flight_tunnel = ConnectedState"
    "wrapped_operation_semaphore in_flight_tunnel = 0"
    "emitted in_flight_tunnel = [ChannelOpened True 40000]"
    by (simp_all add: in_flight_tunnel_eq connected_tunnel_eq remote_state_def fresh_socket_def)
  have b: "remote_state closing_tunnel \<noteq> ConnectedState"
    by (simp add: closing_tunnel_eq remote_state_def fresh_socket_def)
  have c: "remote_state connected_tunnel = ConnectedState"
    "0 < wrapped_operation_semaphore connected_tunnel"
    "emitted connected_tunnel = [ChannelOpened True 40000]"
    by (simp_all add: connected_tunnel_eq remote_state_def fresh_socket_def)
  obtain u where u: "run [InvokeAsyncStopWrappedOperation, ConnectionTimerTimeout] ?c = Inr u"
    by (simp add: handle_def processConnectionTimeout_def processConnectionFailure_def
          asyncStopWrappedOperation_eq closing_tunnel_eq connected_tunnel_eq remote_state_def
          fresh_socket_def Let_def)
  have d: "wrapped_operation_timed_out ?c"
    "InvokeSyncStartWrappedOperation \<notin> set [InvokeAsyncStopWrappedOperation, ConnectionTimerTimeout]"
    by simp_all
  have r: "isWrappedOperationTimedOut u"
    using d u C1_processWrappedOperationTimeout
      [of ?c "[InvokeAsyncStopWrappedOperation, ConnectionTimerTimeout]" u]
    by blast
  show ?thesis
    using a b c d u r
      C1_processWrappedOperationTimeout [of in_flight_tunnel "[]" in_flight_tunnel]
      C1_processWrappedOperationTimeout [of closing_tunnel "[]" closing_tunnel]
      C1_processWrappedOperationTimeout [of connected_tunnel "[]" connected_tunnel]
    by auto
qed

subsection \<open>Disabled timeouts (C8)\<close>





end
